theory Spec2Isabelle
  imports Main "HOL-Library.Word"
begin

unbundle bit_operations_syntax

section \<open>Common types\<close>

type_synonym u8 = "8 word"
type_synonym u16 = "16 word"
type_synonym u32 = "32 word"
type_synonym u64 = "64 word"

text \<open>The \<open>TEE_Result\<close> codes the firewall drivers return.\<close>

datatype tee_result =
    TEE_SUCCESS
  | TEE_ERROR_GENERIC
  | TEE_ERROR_ACCESS_DENIED
  | TEE_ERROR_BAD_PARAMETERS
  | TEE_ERROR_ITEM_NOT_FOUND
  | TEE_ERROR_NOT_SUPPORTED
  | TEE_ERROR_OUT_OF_MEMORY

text \<open>
  Ways a call can end without returning: \<open>panic()\<close>, a failed \<open>assert()\<close> and an access
  past the end of an array.
\<close>

datatype fault = Panic | AssertFailed | OutOfBounds

section \<open>Bit helpers of \<open>util.h\<close>\<close>

text \<open>
  Modelled from the spec: \<open>BIT\<close> and \<open>GENMASK_32\<close> of \<open>util.h\<close>, which is not among the
  sources. \<open>BIT(n)\<close> is \<open>UINT32_C(1) << n\<close> and \<open>GENMASK_32(h, l)\<close> is the mask of bits \<open>h\<close>
  down to \<open>l\<close>, \<open>(~0u << l) & (~0u >> (32 - 1 - h))\<close>, as the register layouts use them
  (\<open>GENMASK_32(6, 4)\<close> is the three-bit CID field above bit 4).
  C defines \<open>1u << n\<close> for \<open>n\<close> below 32 only. For a larger count \<open>BIT\<close> is the shift as the
  AArch64 cores of the RIF platforms execute it, with the count taken modulo 32; the drivers
  reach such a count in two places, \<open>_CIDCFGR_SEMWL\<close> with a CID of 16 or more and
  \<open>stm32_rif_parse_cfg\<close> with a resource index of 32 or more.
\<close>

definition BIT :: "nat \<Rightarrow> u32" where
  "BIT n = push_bit (n mod 32) 1"

definition GENMASK_32 :: "nat \<Rightarrow> nat \<Rightarrow> u32" where
  "GENMASK_32 h l = push_bit l (- 1) AND drop_bit (32 - 1 - h) (- 1)"

text \<open>\<open>__builtin_clz\<close> on a 32-bit operand: the number of zero bits above the highest set bit.\<close>

primrec clz_from :: "nat \<Rightarrow> u32 \<Rightarrow> nat" where
  "clz_from 0 w = 0"
| "clz_from (Suc n) w = (if bit w n then 0 else Suc (clz_from n w))"

definition builtin_clz :: "u32 \<Rightarrow> nat" where
  "builtin_clz w = clz_from 32 w"

section \<open>RIF primitives (\<open>stm32_rif.h\<close>, \<open>stm32_rif.c\<close>)\<close>

definition CIDCFGR_CFEN :: u32 where "CIDCFGR_CFEN = BIT 0"
definition CIDCFGR_SCID_SHIFT :: nat where "CIDCFGR_SCID_SHIFT = 4"
definition CIDCFGR_SEMEN :: u32 where "CIDCFGR_SEMEN = BIT 1"
definition CIDCFGR_SEMWL_SHIFT :: nat where "CIDCFGR_SEMWL_SHIFT = 16"
definition SEMCR_MUTEX :: u32 where "SEMCR_MUTEX = BIT 0"
definition SEMCR_SEMCID_SHIFT :: nat where "SEMCR_SEMCID_SHIFT = 4"
definition SEMCR_SEMCID_MASK :: u32 where "SEMCR_SEMCID_MASK = GENMASK_32 6 4"
definition MAX_CID_BITFIELD :: nat where "MAX_CID_BITFIELD = 3"
definition MAX_CID_SUPPORTED :: u32 where "MAX_CID_SUPPORTED = 7"

text \<open>
  Modelled from the spec: \<open>RIF_CID1\<close> of the device-tree bindings, which are not among the
  sources, is compartment 1, the compartment this engine runs in.
\<close>

definition RIF_CID1 :: u32 where "RIF_CID1 = 1"

text \<open>\<open>_CIDCFGR_SEMWL(x)\<close> is \<open>BIT(_CIDCFGR_SEMWL_SHIFT + x)\<close>, computed on 32 bits.\<close>

definition CIDCFGR_SEMWL :: "u32 \<Rightarrow> u32" where
  "CIDCFGR_SEMWL x = BIT (unat (word_of_nat CIDCFGR_SEMWL_SHIFT + x))"

definition SCID_OK :: "u32 \<Rightarrow> u32 \<Rightarrow> u32 \<Rightarrow> bool" where
  "SCID_OK cidcfgr scid_m cid \<longleftrightarrow>
     cidcfgr AND scid_m = push_bit CIDCFGR_SCID_SHIFT cid \<and> cidcfgr AND CIDCFGR_SEMEN = 0"

definition SEM_EN_AND_OK :: "u32 \<Rightarrow> u32 \<Rightarrow> bool" where
  "SEM_EN_AND_OK cidcfgr wl \<longleftrightarrow>
     cidcfgr AND CIDCFGR_CFEN \<noteq> 0 \<and> cidcfgr AND CIDCFGR_SEMEN \<noteq> 0 \<and>
     cidcfgr AND CIDCFGR_SEMWL wl \<noteq> 0"

text \<open>The variant of \<open>SEM_MODE_INCORRECT\<close> built with \<open>CFG_STM32_RIF\<close>.\<close>

definition SEM_MODE_INCORRECT :: "u32 \<Rightarrow> bool" where
  "SEM_MODE_INCORRECT cidcfgr \<longleftrightarrow>
     cidcfgr AND CIDCFGR_CFEN = 0 \<or> cidcfgr AND CIDCFGR_SEMEN = 0 \<or>
     (cidcfgr AND CIDCFGR_SEMWL RIF_CID1 = 0 \<and> cidcfgr AND CIDCFGR_SEMEN \<noteq> 0)"

text \<open>\<open>sizeof(nb_cid_supp) * 8 - __builtin_clz(nb_cid_supp | 1) - 1\<close>\<close>

definition msb_nb_cid_supp :: "u32 \<Rightarrow> nat" where
  "msb_nb_cid_supp nb_cid_supp = 32 - builtin_clz (nb_cid_supp OR 1) - 1"

definition scid_mask :: "u32 \<Rightarrow> u32" where
  "scid_mask nb_cid_supp =
     GENMASK_32 (CIDCFGR_SCID_SHIFT + msb_nb_cid_supp nb_cid_supp) CIDCFGR_SCID_SHIFT"

definition stm32_rif_check_access :: "u32 \<Rightarrow> u32 \<Rightarrow> u32 \<Rightarrow> u32 \<Rightarrow> fault + tee_result" where
  "stm32_rif_check_access cidcfgr semcr nb_cid_supp cid_to_check =
     (if \<not> msb_nb_cid_supp nb_cid_supp < MAX_CID_BITFIELD then Inl AssertFailed
      else if cidcfgr AND CIDCFGR_CFEN = 0 then Inr TEE_SUCCESS
      else if SCID_OK cidcfgr (scid_mask nb_cid_supp) cid_to_check then Inr TEE_SUCCESS
      else if SEM_EN_AND_OK cidcfgr cid_to_check \<and>
              (semcr AND SEMCR_MUTEX = 0 \<or>
               drop_bit CIDCFGR_SCID_SHIFT (semcr AND scid_mask nb_cid_supp) = cid_to_check)
           then Inr TEE_SUCCESS
      else Inr TEE_ERROR_ACCESS_DENIED)"

text \<open>
  The fields of the two registers as \<open>stm32_rif_check_access\<close> reads them: the static CID
  and the semaphore holder are taken through the mask computed from \<open>nb_cid_supp\<close>, the
  white-list entry of compartment \<open>c\<close> is bit \<open>16 + c\<close>.
\<close>

definition cid_filtering_enabled :: "u32 \<Rightarrow> bool" where
  "cid_filtering_enabled cidcfgr \<longleftrightarrow> bit cidcfgr 0"

definition semaphore_enabled :: "u32 \<Rightarrow> bool" where
  "semaphore_enabled cidcfgr \<longleftrightarrow> bit cidcfgr 1"

definition static_cid :: "u32 \<Rightarrow> u32 \<Rightarrow> u32" where
  "static_cid nb_cid_supp cidcfgr = drop_bit 4 (cidcfgr AND scid_mask nb_cid_supp)"

definition semaphore_whitelisted :: "u32 \<Rightarrow> u32 \<Rightarrow> bool" where
  "semaphore_whitelisted cidcfgr c \<longleftrightarrow> bit cidcfgr (16 + unat c)"

definition mutex_taken :: "u32 \<Rightarrow> bool" where
  "mutex_taken semcr \<longleftrightarrow> bit semcr 0"

definition holder_cid :: "u32 \<Rightarrow> u32 \<Rightarrow> u32" where
  "holder_cid nb_cid_supp semcr = drop_bit 4 (semcr AND scid_mask nb_cid_supp)"


section \<open>Memory-mapped registers (\<open>io.h\<close>)\<close>

text \<open>
  Modelled from the spec: the accessors of \<open>io.h\<close> (\<open>io_read32\<close>, \<open>io_write32\<close>,
  \<open>io_setbits32\<close>, \<open>io_clrbits32\<close>, \<open>io_clrsetbits32\<close>), which are not among the sources; the
  \<open>_stm32shregs\<close> variants are the same accesses under a spinlock.
  A register block is a device whose state the driver cannot see. A read returns what the
  device shows at an address and leaves it alone; a write hands the address and the value
  to the device, which moves to whatever state it chooses (it may store the value, ignore
  it because the register is locked, or stamp the semaphore holder). Every theorem below
  holds for every device. The driver-side state also keeps the list of writes issued, in
  order, so that "this register is not written" can be stated.
\<close>

type_synonym vaddr = nat

record 'h device =
  dev_read :: "'h \<Rightarrow> vaddr \<Rightarrow> u32"
  dev_write :: "vaddr \<Rightarrow> u32 \<Rightarrow> 'h \<Rightarrow> 'h"

record 'h mmio =
  hw :: 'h
  wlog :: "(vaddr \<times> u32) list"

definition io_read32 :: "'h device \<Rightarrow> vaddr \<Rightarrow> 'h mmio \<Rightarrow> u32" where
  "io_read32 D a s = dev_read D (hw s) a"

definition io_write32 :: "'h device \<Rightarrow> vaddr \<Rightarrow> u32 \<Rightarrow> 'h mmio \<Rightarrow> 'h mmio" where
  "io_write32 D a v s = s\<lparr>hw := dev_write D a v (hw s), wlog := wlog s @ [(a, v)]\<rparr>"

definition io_setbits32 :: "'h device \<Rightarrow> vaddr \<Rightarrow> u32 \<Rightarrow> 'h mmio \<Rightarrow> 'h mmio" where
  "io_setbits32 D a set_mask s = io_write32 D a (io_read32 D a s OR set_mask) s"

definition io_clrbits32 :: "'h device \<Rightarrow> vaddr \<Rightarrow> u32 \<Rightarrow> 'h mmio \<Rightarrow> 'h mmio" where
  "io_clrbits32 D a clear_mask s = io_write32 D a (io_read32 D a s AND NOT clear_mask) s"

definition io_clrsetbits32 :: "'h device \<Rightarrow> vaddr \<Rightarrow> u32 \<Rightarrow> u32 \<Rightarrow> 'h mmio \<Rightarrow> 'h mmio" where
  "io_clrsetbits32 D a clear_mask set_mask s =
     io_write32 D a ((io_read32 D a s AND NOT clear_mask) OR set_mask) s"

text \<open>
  Two devices for running the model on concrete inputs: plain memory, and memory whose
  RIF semaphore registers (offsets \<open>0x104 + 8 * n\<close>) show holder CID 1 with the mutex bit
  while taken and read as zero once released.
\<close>

definition ram_device :: "(vaddr \<Rightarrow> u32) device" where
  "ram_device = \<lparr>dev_read = (\<lambda>h a. h a), dev_write = (\<lambda>a v h. h(a := v))\<rparr>"

definition sem_device :: "(vaddr \<Rightarrow> u32) device" where
  "sem_device =
     \<lparr>dev_read = (\<lambda>h a. h a),
      dev_write = (\<lambda>a v h.
        if 260 \<le> a \<and> a mod 8 = 4 then h(a := (if bit v 0 then 17 else 0)) else h(a := v))\<rparr>"

section \<open>RIF semaphores (\<open>stm32_rif.c\<close>)\<close>

definition stm32_rif_is_semaphore_available :: "'h device \<Rightarrow> vaddr \<Rightarrow> 'h mmio \<Rightarrow> bool" where
  "stm32_rif_is_semaphore_available D addr s \<longleftrightarrow> io_read32 D addr s AND SEMCR_MUTEX = 0"

definition stm32_rif_acquire_semaphore ::
  "'h device \<Rightarrow> vaddr \<Rightarrow> u32 \<Rightarrow> 'h mmio \<Rightarrow> fault + tee_result \<times> 'h mmio" where
  "stm32_rif_acquire_semaphore D addr nb_cid_supp s =
     (if \<not> msb_nb_cid_supp nb_cid_supp < MAX_CID_BITFIELD then Inl AssertFailed
      else
        let s1 = io_setbits32 D addr SEMCR_MUTEX s in
        if stm32_rif_is_semaphore_available D addr s1 \<or>
           drop_bit CIDCFGR_SCID_SHIFT (io_read32 D addr s1 AND scid_mask nb_cid_supp) \<noteq> RIF_CID1
        then Inr (TEE_ERROR_ACCESS_DENIED, s1)
        else Inr (TEE_SUCCESS, s1))"

definition stm32_rif_release_semaphore ::
  "'h device \<Rightarrow> vaddr \<Rightarrow> u32 \<Rightarrow> 'h mmio \<Rightarrow> fault + tee_result \<times> 'h mmio" where
  "stm32_rif_release_semaphore D addr nb_cid_supp s =
     (if \<not> msb_nb_cid_supp nb_cid_supp \<le> MAX_CID_BITFIELD then Inl AssertFailed
      else if stm32_rif_is_semaphore_available D addr s then Inr (TEE_SUCCESS, s)
      else
        let s1 = io_clrbits32 D addr SEMCR_MUTEX s in
        if \<not> stm32_rif_is_semaphore_available D addr s1 \<and>
           drop_bit CIDCFGR_SCID_SHIFT (io_read32 D addr s1 AND scid_mask nb_cid_supp) = RIF_CID1
        then Inr (TEE_ERROR_ACCESS_DENIED, s1)
        else Inr (TEE_SUCCESS, s1))"

section \<open>Device-tree cells (\<open>stm32_rif_parse_cfg\<close>)\<close>

text \<open>
  The layout of a RIF device-tree cell comes from the binding headers, which are not among
  the sources; the drivers are modelled for any layout, given as a record of the constants
  they name.
\<close>

record rif_bindings =
  RIF_PER_ID_MASK :: u32
  RIF_SEC_SHIFT :: nat
  RIF_PRIV_SHIFT :: nat
  RIF_LOCK_SHIFT :: nat
  RIF_PERx_CID_MASK :: u32
  RIF_PERx_CID_SHIFT :: nat
  RIF_SCID_MASK :: u32
  RIF_SCID_SHIFT :: nat
  RIMU_ID_OFFSET :: u32
  RIMUPROT_RIMC_M_ID_MASK :: u32
  RIMUPROT_RIMC_M_ID_SHIFT :: nat
  RIMUPROT_RIMC_ATTRx_MASK :: u32
  RIMUPROT_RIMC_ATTRx_SHIFT :: nat

text \<open>\<open>_RIF_FLD_GET(field, value)\<close> is \<open>(value & field_MASK) >> field_SHIFT\<close>.\<close>

definition RIF_FLD_GET :: "u32 \<Rightarrow> nat \<Rightarrow> u32 \<Rightarrow> u32" where
  "RIF_FLD_GET field_mask field_shift v = drop_bit field_shift (v AND field_mask)"




section \<open>RIFSC controller (\<open>stm32_rifsc.c\<close>)\<close>

definition RIFSC_RISC_SECCFGR0 :: nat where "RIFSC_RISC_SECCFGR0 = 0x10"
definition RIFSC_RISC_PRIVCFGR0 :: nat where "RIFSC_RISC_PRIVCFGR0 = 0x30"
definition RIFSC_RISC_RCFGLOCKR0 :: nat where "RIFSC_RISC_RCFGLOCKR0 = 0x50"
definition RIFSC_RISC_PER0_CIDCFGR :: nat where "RIFSC_RISC_PER0_CIDCFGR = 0x100"
definition RIFSC_RISC_PER0_SEMCR :: nat where "RIFSC_RISC_PER0_SEMCR = 0x104"
definition RIFSC_RIMC_ATTR0 :: nat where "RIFSC_RIMC_ATTR0 = 0xC10"
definition PERIPH_IDS_PER_REG :: nat where "PERIPH_IDS_PER_REG = 32"
definition OFFSET_PERX_CIDCFGR :: nat where "OFFSET_PERX_CIDCFGR = 0x8"
definition RIFSC_RISC_CIDCFGR_CFEN_MASK :: u32 where "RIFSC_RISC_CIDCFGR_CFEN_MASK = BIT 0"
definition RIFSC_RISC_CIDCFGR_SEM_EN_MASK :: u32 where "RIFSC_RISC_CIDCFGR_SEM_EN_MASK = BIT 1"
definition RIFSC_RISC_CIDCFGR_SCID_MASK :: u32 where "RIFSC_RISC_CIDCFGR_SCID_MASK = GENMASK_32 6 4"
definition RIFSC_RISC_CIDCFGR_SCID_SHIFT :: nat where "RIFSC_RISC_CIDCFGR_SCID_SHIFT = 4"
definition RIFSC_RISC_CIDCFGR_SEML_SHIFT :: nat where "RIFSC_RISC_CIDCFGR_SEML_SHIFT = 16"
definition RIFSC_RIMC_CIDSEL_MASK :: u32 where "RIFSC_RIMC_CIDSEL_MASK = BIT 2"
definition RIFSC_RIMC_MCID_MASK :: u32 where "RIFSC_RIMC_MCID_MASK = GENMASK_32 6 4"
definition RIFSC_RIMC_MCID_SHIFT :: nat where "RIFSC_RIMC_MCID_SHIFT = 4"
definition RIF_CID0 :: u32 where "RIF_CID0 = 0"

text \<open>
  The structures of \<open>stm32_rifsc.h\<close>. The member \<open>id\<close> of \<open>struct risup_cfg\<close> is the field
  \<open>risup_id\<close> here, and the members \<open>id\<close> and \<open>risup_id\<close> of \<open>struct rimu_cfg\<close> are \<open>rimu_id\<close>
  and \<open>rimu_risup_id\<close>, since a field name is a constant of the whole theory.
\<close>

record risup_cfg =
  cid_attr :: u32
  risup_id :: u32
  sec :: bool
  priv :: bool
  lock :: bool
  pm_sem :: bool

record rimu_cfg =
  rimu_id :: u32
  rimu_risup_id :: u32
  attr :: u32

record rifsc_driver_data =
  version :: u32
  nb_rimu :: u8
  nb_risup :: u8
  rif_en :: bool
  sec_en :: bool
  priv_en :: bool

text \<open>
  \<open>struct rifsc_platdata\<close>, of which the driver keeps the single instance \<open>rifsc_pdata\<close>.
  The table \<open>rimu_risup\<close> names binding constants that are not among the sources and is
  carried here as a field; \<open>cfg_insecure\<close> is the build option \<open>CFG_INSECURE\<close>.
\<close>

record rifsc_platdata =
  base :: vaddr
  drv_data :: rifsc_driver_data
  risup :: "risup_cfg list"
  nrisup :: nat
  rimu :: "rimu_cfg list"
  nrimu :: nat
  is_tdcid :: bool
  errata_ahbrisab :: bool
  rimu_risup :: "(u32 \<times> u32) list"
  cfg_insecure :: bool

definition bool_u32 :: "bool \<Rightarrow> u32" where
  "bool_u32 b = (if b then 1 else 0)"

text \<open>
  \<open>stm32_risup_cfg\<close> in two steps, in the order of the source: the writes of the security,
  privilege, CID-filtering and lock registers, then the step that takes or releases the
  semaphore. The offsets are computed from \<open>risup->id\<close> before it is checked; they are used
  only for \<open>id < nb_risup \<le> 255\<close>, where none of the products wraps.
\<close>

definition risup_offset :: "risup_cfg \<Rightarrow> nat" where
  "risup_offset r = 4 * (unat (risup_id r) div PERIPH_IDS_PER_REG)"

definition risup_shift :: "risup_cfg \<Rightarrow> nat" where
  "risup_shift r = unat (risup_id r) mod PERIPH_IDS_PER_REG"

definition risup_cidcfgr_offset :: "risup_cfg \<Rightarrow> nat" where
  "risup_cidcfgr_offset r = OFFSET_PERX_CIDCFGR * unat (risup_id r)"

definition risup_write_attrs ::
  "'h device \<Rightarrow> rifsc_platdata \<Rightarrow> risup_cfg \<Rightarrow> 'h mmio \<Rightarrow> 'h mmio" where
  "risup_write_attrs D pdata r s =
     (let s1 = (if sec_en (drv_data pdata)
                then io_clrsetbits32 D (base pdata + RIFSC_RISC_SECCFGR0 + risup_offset r)
                       (BIT (risup_shift r)) (push_bit (risup_shift r) (bool_u32 (sec r))) s
                else s);
          s2 = (if priv_en (drv_data pdata)
                then io_clrsetbits32 D (base pdata + RIFSC_RISC_PRIVCFGR0 + risup_offset r)
                       (BIT (risup_shift r)) (push_bit (risup_shift r) (bool_u32 (priv r))) s1
                else s1)
      in if is_tdcid pdata then
           let s3 = (if rif_en (drv_data pdata)
                     then io_write32 D (base pdata + RIFSC_RISC_PER0_CIDCFGR + risup_cidcfgr_offset r)
                            (cid_attr r) s2
                     else s2)
           in if lock r
              then io_setbits32 D (base pdata + RIFSC_RISC_RCFGLOCKR0 + risup_offset r)
                     (BIT (risup_shift r)) s3
              else s3
         else s2)"

definition risup_settle_semaphore ::
  "'h device \<Rightarrow> rifsc_platdata \<Rightarrow> risup_cfg \<Rightarrow> 'h mmio \<Rightarrow> fault + tee_result \<times> 'h mmio" where
  "risup_settle_semaphore D pdata r s =
     (if SEM_MODE_INCORRECT (cid_attr r) \<or>
         io_read32 D (base pdata + RIFSC_RISC_SECCFGR0 + risup_offset r) s AND BIT (risup_shift r) = 0
      then
        (case stm32_rif_release_semaphore D
                (base pdata + RIFSC_RISC_PER0_SEMCR + risup_cidcfgr_offset r) MAX_CID_SUPPORTED s of
           Inl f \<Rightarrow> Inl f
         | Inr (res, s') \<Rightarrow>
             if res \<noteq> TEE_SUCCESS then Inr (TEE_ERROR_ACCESS_DENIED, s') else Inr (TEE_SUCCESS, s'))
      else
        (case stm32_rif_acquire_semaphore D
                (base pdata + RIFSC_RISC_PER0_SEMCR + risup_cidcfgr_offset r) MAX_CID_SUPPORTED s of
           Inl f \<Rightarrow> Inl f
         | Inr (res, s') \<Rightarrow>
             if res \<noteq> TEE_SUCCESS then Inr (TEE_ERROR_ACCESS_DENIED, s') else Inr (TEE_SUCCESS, s')))"

definition stm32_risup_cfg ::
  "'h device \<Rightarrow> rifsc_platdata \<Rightarrow> risup_cfg \<Rightarrow> 'h mmio \<Rightarrow> fault + tee_result \<times> 'h mmio" where
  "stm32_risup_cfg D pdata r s =
     (if unat (risup_id r) \<ge> unat (nb_risup (drv_data pdata)) then Inr (TEE_ERROR_BAD_PARAMETERS, s)
      else risup_settle_semaphore D pdata r (risup_write_attrs D pdata r s))"

text \<open>The erratum check of \<open>stm32_rimu_errata_ahbrisab\<close>; it returns the updated \<open>rimu\<close>.\<close>

definition stm32_rimu_errata_ahbrisab ::
  "'h device \<Rightarrow> rifsc_platdata \<Rightarrow> rimu_cfg \<Rightarrow> 'h mmio \<Rightarrow> fault + rimu_cfg" where
  "stm32_rimu_errata_ahbrisab D pdata m s =
     (if \<not> errata_ahbrisab pdata then Inr m
      else
        let m1 = (case find (\<lambda>p. fst p = rimu_id m) (rimu_risup pdata) of
                    None \<Rightarrow> m
                  | Some p \<Rightarrow> m\<lparr>rimu_risup_id := snd p\<rparr>)
        in if attr m1 AND RIFSC_RIMC_CIDSEL_MASK \<noteq> 0 then
             (if drop_bit RIFSC_RIMC_MCID_SHIFT (attr m1 AND RIFSC_RIMC_MCID_MASK) = RIF_CID0
                 \<and> \<not> cfg_insecure pdata
              then Inl Panic else Inr m1)
           else if rimu_risup_id m1 = 0 then
             (if \<not> cfg_insecure pdata then Inl Panic else Inr m1)
           else
             (case find (\<lambda>r. rimu_risup_id m1 = risup_id r) (take (nrisup pdata) (risup pdata)) of
                None \<Rightarrow> Inl Panic
              | Some r \<Rightarrow>
                  let risup_cidcfgr = io_read32 D
                        (base pdata + RIFSC_RISC_PER0_CIDCFGR + OFFSET_PERX_CIDCFGR * unat (risup_id r)) s
                  in if (risup_cidcfgr AND RIFSC_RISC_CIDCFGR_CFEN_MASK = 0 \<or>
                         (risup_cidcfgr AND RIFSC_RISC_CIDCFGR_SEM_EN_MASK = 0 \<and>
                          drop_bit RIFSC_RISC_CIDCFGR_SCID_SHIFT
                            (risup_cidcfgr AND RIFSC_RISC_CIDCFGR_SCID_MASK) = RIF_CID0) \<or>
                         (risup_cidcfgr AND RIFSC_RISC_CIDCFGR_SEM_EN_MASK \<noteq> 0 \<and>
                          risup_cidcfgr AND BIT RIFSC_RISC_CIDCFGR_SEML_SHIFT \<noteq> 0))
                        \<and> \<not> cfg_insecure pdata
                     then Inl Panic else Inr m1))"

definition stm32_rimu_cfg ::
  "'h device \<Rightarrow> rifsc_platdata \<Rightarrow> rimu_cfg \<Rightarrow> 'h mmio \<Rightarrow> fault + tee_result \<times> 'h mmio" where
  "stm32_rimu_cfg D pdata m s =
     (if unat (rimu_id m) \<ge> unat (nb_rimu (drv_data pdata)) then Inr (TEE_ERROR_BAD_PARAMETERS, s)
      else
        case stm32_rimu_errata_ahbrisab D pdata m s of
          Inl f \<Rightarrow> Inl f
        | Inr m1 \<Rightarrow>
            if rif_en (drv_data pdata)
            then Inr (TEE_SUCCESS, io_write32 D (base pdata + RIFSC_RIMC_ATTR0 + 4 * unat (rimu_id m1)) (attr m1) s)
            else Inr (TEE_SUCCESS, s))"

text \<open>
  \<open>stm32_rifsc_reconfigure_risup\<close> updates the entry \<open>rifsc_pdata.risup[risup_id]\<close> in place,
  so it returns the platform data with the result.
\<close>

definition stm32_rifsc_reconfigure_risup ::
  "'h device \<Rightarrow> rifsc_platdata \<Rightarrow> u32 \<Rightarrow> u32 \<Rightarrow> bool \<Rightarrow> bool \<Rightarrow> bool \<Rightarrow> 'h mmio \<Rightarrow>
   fault + tee_result \<times> rifsc_platdata \<times> 'h mmio" where
  "stm32_rifsc_reconfigure_risup D pdata rid cid sec_v priv_v cfen s =
     (let offset = 4 * (unat rid div PERIPH_IDS_PER_REG) in
      if unat rid > unat (nb_risup (drv_data pdata)) \<or> cid > MAX_CID_SUPPORTED
      then Inr (TEE_ERROR_BAD_PARAMETERS, pdata, s)
      else if io_read32 D (base pdata + RIFSC_RISC_RCFGLOCKR0 + offset) s
                AND BIT (unat rid mod PERIPH_IDS_PER_REG) \<noteq> 0
      then Inr (TEE_ERROR_ACCESS_DENIED, pdata, s)
      else if unat rid \<ge> length (risup pdata) then Inl OutOfBounds
      else
        let a0 = push_bit RIFSC_RISC_CIDCFGR_SCID_SHIFT cid;
            a1 = (if cfen then a0 OR RIFSC_RISC_CIDCFGR_CFEN_MASK
                  else a0 AND NOT RIFSC_RISC_CIDCFGR_CFEN_MASK);
            r = (risup pdata ! unat rid)\<lparr>cid_attr := a1, sec := sec_v, priv := priv_v\<rparr>;
            pdata' = pdata\<lparr>risup := (risup pdata)[unat rid := r]\<rparr>
        in case stm32_risup_cfg D pdata' r s of
             Inl f \<Rightarrow> Inl f
           | Inr (res, s') \<Rightarrow> Inr (res, pdata', s'))"

text \<open>A firewall query: the argument count and the argument cells.\<close>

record firewall_query =
  arg_count :: nat
  args :: "u32 list"

definition stm32_rifsc_set_config ::
  "rif_bindings \<Rightarrow> 'h device \<Rightarrow> rifsc_platdata \<Rightarrow> firewall_query \<Rightarrow> 'h mmio \<Rightarrow>
   fault + tee_result \<times> 'h mmio" where
  "stm32_rifsc_set_config B D pdata firewall s =
     (if arg_count firewall \<noteq> 1 then Inr (TEE_ERROR_BAD_PARAMETERS, s)
      else if args firewall = [] then Inl OutOfBounds
      else
        let conf = args firewall ! 0;
            ident = conf AND RIF_PER_ID_MASK B
        in if ident < RIMU_ID_OFFSET B then
             let r = \<lparr>cid_attr = RIF_FLD_GET (RIF_PERx_CID_MASK B) (RIF_PERx_CID_SHIFT B) conf,
                      risup_id = ident,
                      sec = (BIT (RIF_SEC_SHIFT B) AND conf \<noteq> 0),
                      priv = (BIT (RIF_PRIV_SHIFT B) AND conf \<noteq> 0),
                      lock = (BIT (RIF_LOCK_SHIFT B) AND conf \<noteq> 0),
                      pm_sem = False\<rparr>
             in if \<not> is_tdcid pdata \<and>
                   io_read32 D (base pdata + OFFSET_PERX_CIDCFGR * unat (risup_id r)
                                + RIFSC_RISC_PER0_CIDCFGR) s \<noteq> cid_attr r
                then Inr (TEE_ERROR_BAD_PARAMETERS, s)
                else stm32_risup_cfg D pdata r s
           else if \<not> is_tdcid pdata then Inr (TEE_ERROR_ACCESS_DENIED, s)
           else
             stm32_rimu_cfg D pdata
               \<lparr>rimu_id = RIF_FLD_GET (RIMUPROT_RIMC_M_ID_MASK B) (RIMUPROT_RIMC_M_ID_SHIFT B) conf
                            - RIMU_ID_OFFSET B,
                rimu_risup_id = 0,
                attr = RIF_FLD_GET (RIMUPROT_RIMC_ATTRx_MASK B) (RIMUPROT_RIMC_ATTRx_SHIFT B) conf\<rparr> s)"


section \<open>ETZPC firewall (\<open>stm32_etzpc.c\<close>)\<close>

text \<open>Calls that may end in a fault are chained with \<open>bindf\<close>.\<close>

definition bindf :: "fault + 'a \<Rightarrow> ('a \<Rightarrow> fault + 'b) \<Rightarrow> fault + 'b" where
  "bindf m f = (case m of Inl e \<Rightarrow> Inl e | Inr x \<Rightarrow> f x)"

definition ETZPC_TZMA0_SIZE :: nat where "ETZPC_TZMA0_SIZE = 0x000"
definition ETZPC_DECPROT0 :: nat where "ETZPC_DECPROT0 = 0x010"
definition ETZPC_DECPROT_LOCK0 :: nat where "ETZPC_DECPROT_LOCK0 = 0x030"
definition ETZPC_TZMA0_SIZE_LOCK :: u32 where "ETZPC_TZMA0_SIZE_LOCK = BIT 31"
definition ETZPC_DECPROT0_MASK :: u32 where "ETZPC_DECPROT0_MASK = GENMASK_32 1 0"
definition DECPROT_SHIFT :: nat where "DECPROT_SHIFT = 1"
definition IDS_PER_DECPROT_REGS :: nat where "IDS_PER_DECPROT_REGS = 16"
definition IDS_PER_DECPROT_LOCK_REGS :: nat where "IDS_PER_DECPROT_LOCK_REGS = 32"

datatype etzpc_decprot_attributes =
    ETZPC_DECPROT_S_RW
  | ETZPC_DECPROT_NS_R_S_W
  | ETZPC_DECPROT_MCU_ISOLATION
  | ETZPC_DECPROT_NS_RW
  | ETZPC_DECPROT_MAX

fun decprot_u32 :: "etzpc_decprot_attributes \<Rightarrow> u32" where
  "decprot_u32 ETZPC_DECPROT_S_RW = 0"
| "decprot_u32 ETZPC_DECPROT_NS_R_S_W = 1"
| "decprot_u32 ETZPC_DECPROT_MCU_ISOLATION = 2"
| "decprot_u32 ETZPC_DECPROT_NS_RW = 3"
| "decprot_u32 ETZPC_DECPROT_MAX = 4"

text \<open>The cast of a two-bit register field to the enumeration.\<close>

definition u32_decprot :: "u32 \<Rightarrow> etzpc_decprot_attributes" where
  "u32_decprot v =
     (if v = 0 then ETZPC_DECPROT_S_RW
      else if v = 1 then ETZPC_DECPROT_NS_R_S_W
      else if v = 2 then ETZPC_DECPROT_MCU_ISOLATION
      else if v = 3 then ETZPC_DECPROT_NS_RW
      else ETZPC_DECPROT_MAX)"

text \<open>
  The constants of the ETZPC bindings and of the platform memory map, and the two platform
  helpers \<open>stm32mp1_pa_or_sram_alias_pa\<close> and \<open>stm32mp1_ram_intersect_pager_ram\<close>, are not
  among the sources; the driver is modelled for any values of them. \<open>cfg_stm32mp15\<close> and
  \<open>cfg_with_pager\<close> are the build options of the same names.
\<close>

record etzpc_bindings =
  ETZPC_ID_MASK :: u32
  ETZPC_MODE_MASK :: u32
  ETZPC_MODE_SHIFT :: nat
  ETZPC_LOCK_MASK :: u32
  DECPROT_S_RW :: u32
  DECPROT_NS_R_S_W :: u32
  DECPROT_MCU_ISOLATION :: u32
  DECPROT_NS_RW :: u32
  ETZPC_TZMA0_ID :: u32
  ETZPC_TZMA1_ID :: u32
  STM32MP1_ETZPC_SRAM1_ID :: u32
  STM32MP1_ETZPC_SRAM2_ID :: u32
  STM32MP1_ETZPC_SRAM3_ID :: u32
  STM32MP1_ETZPC_SRAM4_ID :: u32
  STM32MP1_ETZPC_RETRAM_ID :: u32
  ROM_BASE :: u32
  ROM_SIZE :: u32
  SYSRAM_BASE :: u32
  SYSRAM_SIZE :: u32
  SYSRAM_SEC_SIZE :: u32
  SRAM1_BASE :: u32
  SRAM1_SIZE :: u32
  SRAM2_BASE :: u32
  SRAM2_SIZE :: u32
  SRAM3_BASE :: u32
  SRAM3_SIZE :: u32
  SRAM4_BASE :: u32
  SRAM4_SIZE :: u32
  RETRAM_BASE :: u32
  RETRAM_SIZE :: u32
  SMALL_PAGE_SIZE :: u32
  cfg_stm32mp15 :: bool
  cfg_with_pager :: bool
  stm32mp1_pa_or_sram_alias_pa :: "u32 \<Rightarrow> u32"
  stm32mp1_ram_intersect_pager_ram :: "u32 \<Rightarrow> u32 \<Rightarrow> bool"

record stm32_etzpc_driver_data =
  num_tzma :: u32
  num_per_sec :: u32
  num_ahb_sec :: u32

record etzpc_device =
  etzpc_base :: vaddr
  ddata :: stm32_etzpc_driver_data

definition valid_decprot_id :: "etzpc_device \<Rightarrow> u32 \<Rightarrow> bool" where
  "valid_decprot_id dev ident \<longleftrightarrow> ident < num_per_sec (ddata dev)"

definition valid_tzma_id :: "etzpc_device \<Rightarrow> u32 \<Rightarrow> bool" where
  "valid_tzma_id dev ident \<longleftrightarrow> ident < num_tzma (ddata dev)"

definition etzpc_binding2decprot :: "etzpc_bindings \<Rightarrow> u32 \<Rightarrow> fault + etzpc_decprot_attributes" where
  "etzpc_binding2decprot B mode =
     (if mode = DECPROT_S_RW B then Inr ETZPC_DECPROT_S_RW
      else if mode = DECPROT_NS_R_S_W B then Inr ETZPC_DECPROT_NS_R_S_W
      else if cfg_stm32mp15 B \<and> mode = DECPROT_MCU_ISOLATION B then Inr ETZPC_DECPROT_MCU_ISOLATION
      else if mode = DECPROT_NS_RW B then Inr ETZPC_DECPROT_NS_RW
      else Inl Panic)"

definition decprot_offset :: "u32 \<Rightarrow> nat" where
  "decprot_offset decprot_id = 4 * (unat decprot_id div IDS_PER_DECPROT_REGS)"

definition decprot_field_shift :: "u32 \<Rightarrow> nat" where
  "decprot_field_shift decprot_id = push_bit DECPROT_SHIFT (unat decprot_id mod IDS_PER_DECPROT_REGS)"

definition etzpc_do_configure_decprot ::
  "'h device \<Rightarrow> etzpc_device \<Rightarrow> u32 \<Rightarrow> etzpc_decprot_attributes \<Rightarrow> 'h mmio \<Rightarrow> fault + 'h mmio" where
  "etzpc_do_configure_decprot D dev decprot_id a s =
     (if \<not> valid_decprot_id dev decprot_id then Inl AssertFailed
      else Inr (io_clrsetbits32 D (etzpc_base dev + ETZPC_DECPROT0 + decprot_offset decprot_id)
                  (push_bit (decprot_field_shift decprot_id) ETZPC_DECPROT0_MASK)
                  (push_bit (decprot_field_shift decprot_id) (decprot_u32 a AND ETZPC_DECPROT0_MASK)) s))"

definition etzpc_do_get_decprot ::
  "'h device \<Rightarrow> etzpc_device \<Rightarrow> u32 \<Rightarrow> 'h mmio \<Rightarrow> fault + etzpc_decprot_attributes" where
  "etzpc_do_get_decprot D dev decprot_id s =
     (if \<not> valid_decprot_id dev decprot_id then Inl AssertFailed
      else Inr (u32_decprot
                  (drop_bit (decprot_field_shift decprot_id)
                     (io_read32 D (etzpc_base dev + ETZPC_DECPROT0 + decprot_offset decprot_id) s)
                   AND ETZPC_DECPROT0_MASK)))"

definition decprot_lock_offset :: "u32 \<Rightarrow> nat" where
  "decprot_lock_offset decprot_id = 4 * (unat decprot_id div IDS_PER_DECPROT_LOCK_REGS)"

definition decprot_lock_mask :: "u32 \<Rightarrow> u32" where
  "decprot_lock_mask decprot_id = BIT (unat decprot_id mod IDS_PER_DECPROT_LOCK_REGS)"

definition etzpc_do_lock_decprot ::
  "'h device \<Rightarrow> etzpc_device \<Rightarrow> u32 \<Rightarrow> 'h mmio \<Rightarrow> fault + 'h mmio" where
  "etzpc_do_lock_decprot D dev decprot_id s =
     (if \<not> valid_decprot_id dev decprot_id then Inl AssertFailed
      else Inr (io_write32 D (etzpc_base dev + decprot_lock_offset decprot_id + ETZPC_DECPROT_LOCK0)
                  (decprot_lock_mask decprot_id) s))"

definition decprot_is_locked :: "'h device \<Rightarrow> etzpc_device \<Rightarrow> u32 \<Rightarrow> 'h mmio \<Rightarrow> fault + bool" where
  "decprot_is_locked D dev decprot_id s =
     (if \<not> valid_decprot_id dev decprot_id then Inl AssertFailed
      else Inr (io_read32 D (etzpc_base dev + decprot_lock_offset decprot_id + ETZPC_DECPROT_LOCK0) s
                AND decprot_lock_mask decprot_id \<noteq> 0))"

definition etzpc_do_configure_tzma ::
  "'h device \<Rightarrow> etzpc_device \<Rightarrow> u32 \<Rightarrow> u16 \<Rightarrow> 'h mmio \<Rightarrow> fault + 'h mmio" where
  "etzpc_do_configure_tzma D dev tzma_id tzma_value s =
     (if \<not> valid_tzma_id dev tzma_id then Inl AssertFailed
      else Inr (io_write32 D (etzpc_base dev + ETZPC_TZMA0_SIZE + 4 * unat tzma_id) (ucast tzma_value) s))"

definition etzpc_do_get_tzma :: "'h device \<Rightarrow> etzpc_device \<Rightarrow> u32 \<Rightarrow> 'h mmio \<Rightarrow> fault + u16" where
  "etzpc_do_get_tzma D dev tzma_id s =
     (if \<not> valid_tzma_id dev tzma_id then Inl AssertFailed
      else Inr (ucast (io_read32 D (etzpc_base dev + ETZPC_TZMA0_SIZE + 4 * unat tzma_id) s)))"

definition etzpc_do_lock_tzma :: "'h device \<Rightarrow> etzpc_device \<Rightarrow> u32 \<Rightarrow> 'h mmio \<Rightarrow> fault + 'h mmio" where
  "etzpc_do_lock_tzma D dev tzma_id s =
     (if \<not> valid_tzma_id dev tzma_id then Inl AssertFailed
      else Inr (io_setbits32 D (etzpc_base dev + ETZPC_TZMA0_SIZE + 4 * unat tzma_id)
                  ETZPC_TZMA0_SIZE_LOCK s))"

definition tzma_is_locked :: "'h device \<Rightarrow> etzpc_device \<Rightarrow> u32 \<Rightarrow> 'h mmio \<Rightarrow> fault + bool" where
  "tzma_is_locked D dev tzma_id s =
     (if \<not> valid_tzma_id dev tzma_id then Inl AssertFailed
      else Inr (io_read32 D (etzpc_base dev + ETZPC_TZMA0_SIZE + 4 * unat tzma_id) s
                AND ETZPC_TZMA0_SIZE_LOCK \<noteq> 0))"

definition stm32_etzpc_check_access ::
  "etzpc_bindings \<Rightarrow> 'h device \<Rightarrow> etzpc_device \<Rightarrow> firewall_query \<Rightarrow> 'h mmio \<Rightarrow> fault + tee_result" where
  "stm32_etzpc_check_access B D dev firewall s =
     (if arg_count firewall \<noteq> 1 then Inr TEE_ERROR_BAD_PARAMETERS
      else if args firewall = [] then Inl OutOfBounds
      else
        let ident = (args firewall ! 0) AND ETZPC_ID_MASK B in
        bindf (etzpc_binding2decprot B
                 (drop_bit (ETZPC_MODE_SHIFT B) ((args firewall ! 0) AND ETZPC_MODE_MASK B)))
          (\<lambda>attr_req.
             if ident < num_per_sec (ddata dev) then
               bindf (etzpc_do_get_decprot D dev ident s)
                 (\<lambda>a.
                    if a = attr_req \<or>
                       ((attr_req = ETZPC_DECPROT_S_RW \<or> attr_req = ETZPC_DECPROT_NS_R_S_W) \<and>
                        a \<noteq> ETZPC_DECPROT_MCU_ISOLATION) \<or>
                       ((attr_req = ETZPC_DECPROT_NS_RW \<or> attr_req = ETZPC_DECPROT_NS_R_S_W) \<and>
                        a \<noteq> ETZPC_DECPROT_MCU_ISOLATION \<and> a \<noteq> ETZPC_DECPROT_S_RW)
                    then Inr TEE_SUCCESS
                    else Inr TEE_ERROR_ACCESS_DENIED)
             else Inr TEE_ERROR_BAD_PARAMETERS))"

definition pager_permits_decprot_config ::
  "etzpc_bindings \<Rightarrow> u32 \<Rightarrow> etzpc_decprot_attributes \<Rightarrow> bool" where
  "pager_permits_decprot_config B decprot_id a =
     (if \<not> cfg_with_pager B then True
      else
        let ram = (if decprot_id = ETZPC_TZMA1_ID B then Some (SYSRAM_BASE B, SYSRAM_SEC_SIZE B)
                   else if decprot_id = STM32MP1_ETZPC_SRAM1_ID B then Some (SRAM1_BASE B, SRAM1_SIZE B)
                   else if decprot_id = STM32MP1_ETZPC_SRAM2_ID B then Some (SRAM2_BASE B, SRAM2_SIZE B)
                   else if decprot_id = STM32MP1_ETZPC_SRAM3_ID B then Some (SRAM3_BASE B, SRAM3_SIZE B)
                   else if decprot_id = STM32MP1_ETZPC_SRAM4_ID B then Some (SRAM4_BASE B, SRAM4_SIZE B)
                   else None)
        in case ram of
             None \<Rightarrow> True
           | Some (ram_base, ram_size) \<Rightarrow>
               \<not> (stm32mp1_ram_intersect_pager_ram B ram_base ram_size \<and> a \<noteq> ETZPC_DECPROT_S_RW))"

text \<open>
  The part shared by \<open>stm32_etzpc_configure\<close> and the peripheral branch of
  \<open>stm32_etzpc_configure_memory\<close>, which repeat it word for word: the lock test, the pager
  test of \<open>CFG_STM32MP15\<close> builds, the write of the attribute and the optional lock.
\<close>

definition etzpc_apply_decprot ::
  "etzpc_bindings \<Rightarrow> 'h device \<Rightarrow> etzpc_device \<Rightarrow> u32 \<Rightarrow> u32 \<Rightarrow> etzpc_decprot_attributes \<Rightarrow>
   'h mmio \<Rightarrow> fault + tee_result \<times> 'h mmio" where
  "etzpc_apply_decprot B D dev arg0 ident a s =
     bindf (decprot_is_locked D dev ident s)
       (\<lambda>locked.
          if locked then
            bindf (etzpc_do_get_decprot D dev ident s)
              (\<lambda>cur. if cur \<noteq> a then Inr (TEE_ERROR_ACCESS_DENIED, s) else Inr (TEE_SUCCESS, s))
          else if cfg_stm32mp15 B \<and> \<not> pager_permits_decprot_config B ident a
          then Inr (TEE_ERROR_ACCESS_DENIED, s)
          else
            bindf (etzpc_do_configure_decprot D dev ident a s)
              (\<lambda>s1.
                 if arg0 AND ETZPC_LOCK_MASK B \<noteq> 0
                 then bindf (etzpc_do_lock_decprot D dev ident s1) (\<lambda>s2. Inr (TEE_SUCCESS, s2))
                 else Inr (TEE_SUCCESS, s1)))"

definition stm32_etzpc_configure ::
  "etzpc_bindings \<Rightarrow> 'h device \<Rightarrow> etzpc_device \<Rightarrow> firewall_query \<Rightarrow> 'h mmio \<Rightarrow>
   fault + tee_result \<times> 'h mmio" where
  "stm32_etzpc_configure B D dev firewall s =
     (if arg_count firewall \<noteq> 1 then Inr (TEE_ERROR_BAD_PARAMETERS, s)
      else if args firewall = [] then Inl OutOfBounds
      else
        let arg0 = args firewall ! 0; ident = arg0 AND ETZPC_ID_MASK B in
        if ident < num_per_sec (ddata dev) then
          bindf (etzpc_binding2decprot B (drop_bit (ETZPC_MODE_SHIFT B) (arg0 AND ETZPC_MODE_MASK B)))
            (\<lambda>a. etzpc_apply_decprot B D dev arg0 ident a s)
        else Inr (TEE_ERROR_BAD_PARAMETERS, s))"

text \<open>
  Modelled from the spec: \<open>IS_ALIGNED\<close> and \<open>ROUNDUP_DIV\<close> of \<open>util.h\<close>, which is not among the
  sources, for a power-of-two second operand: the size is a whole number of small pages, and
  the count of pages is the size divided by the page size, rounded up.
\<close>

definition IS_ALIGNED :: "u32 \<Rightarrow> u32 \<Rightarrow> bool" where
  "IS_ALIGNED x a \<longleftrightarrow> x AND (a - 1) = 0"

definition ROUNDUP_DIV :: "u32 \<Rightarrow> u32 \<Rightarrow> u32" where
  "ROUNDUP_DIV x y = ((x + (y - 1)) AND NOT (y - 1)) div y"

definition stm32_etzpc_configure_memory ::
  "etzpc_bindings \<Rightarrow> 'h device \<Rightarrow> etzpc_device \<Rightarrow> firewall_query \<Rightarrow> u32 \<Rightarrow> u32 \<Rightarrow> 'h mmio \<Rightarrow>
   fault + tee_result \<times> 'h mmio" where
  "stm32_etzpc_configure_memory B D dev firewall paddr0 sz s =
     (if arg_count firewall \<noteq> 1 then Inr (TEE_ERROR_BAD_PARAMETERS, s)
      else if args firewall = [] then Inl OutOfBounds
      else
        let arg0 = args firewall ! 0; ident = arg0 AND ETZPC_ID_MASK B in
        if ident < num_per_sec (ddata dev) \<and>
           (ident = STM32MP1_ETZPC_SRAM1_ID B \<or> ident = STM32MP1_ETZPC_SRAM2_ID B \<or>
            (cfg_stm32mp15 B \<and>
             (ident = STM32MP1_ETZPC_SRAM4_ID B \<or> ident = STM32MP1_ETZPC_RETRAM_ID B)) \<or>
            ident = STM32MP1_ETZPC_SRAM3_ID B)
        then
          let paddr = stm32mp1_pa_or_sram_alias_pa B paddr0;
              expect = (if ident = STM32MP1_ETZPC_SRAM1_ID B then (SRAM1_BASE B, SRAM1_SIZE B)
                        else if ident = STM32MP1_ETZPC_SRAM2_ID B then (SRAM2_BASE B, SRAM2_SIZE B)
                        else if ident = STM32MP1_ETZPC_SRAM3_ID B then (SRAM3_BASE B, SRAM3_SIZE B)
                        else if ident = STM32MP1_ETZPC_SRAM4_ID B then (SRAM4_BASE B, SRAM4_SIZE B)
                        else (RETRAM_BASE B, RETRAM_SIZE B))
          in if paddr \<noteq> fst expect \<or> sz \<noteq> snd expect then Inr (TEE_ERROR_BAD_PARAMETERS, s)
             else
               bindf (etzpc_binding2decprot B (drop_bit (ETZPC_MODE_SHIFT B) (arg0 AND ETZPC_MODE_MASK B)))
                 (\<lambda>a. etzpc_apply_decprot B D dev arg0 ident a s)
        else if ident = ETZPC_TZMA0_ID B \<or> ident = ETZPC_TZMA1_ID B then
          (if ident = ETZPC_TZMA0_ID B \<and> (paddr0 \<noteq> ROM_BASE B \<or> sz > ROM_SIZE B)
           then Inr (TEE_ERROR_BAD_PARAMETERS, s)
           else if ident \<noteq> ETZPC_TZMA0_ID B \<and> (paddr0 \<noteq> SYSRAM_BASE B \<or> sz > SYSRAM_SIZE B)
           then Inr (TEE_ERROR_BAD_PARAMETERS, s)
           else
             let tzma_id = (if ident = ETZPC_TZMA0_ID B then 0 else 1) in
             if \<not> IS_ALIGNED sz (SMALL_PAGE_SIZE B) then Inr (TEE_ERROR_BAD_PARAMETERS, s)
             else
               let total_sz = ROUNDUP_DIV sz (SMALL_PAGE_SIZE B) in
               bindf (tzma_is_locked D dev tzma_id s)
                 (\<lambda>locked.
                    if locked then
                      bindf (etzpc_do_get_tzma D dev tzma_id s)
                        (\<lambda>cur. if ucast cur \<noteq> total_sz then Inr (TEE_ERROR_ACCESS_DENIED, s)
                                else Inr (TEE_SUCCESS, s))
                    else
                      bindf (etzpc_do_configure_tzma D dev tzma_id (ucast total_sz) s)
                        (\<lambda>s1. Inr (TEE_SUCCESS, s1))))
        else Inr (TEE_ERROR_BAD_PARAMETERS, s))"


section \<open>RISAF memory-region engine (\<open>stm32_risaf.c\<close>)\<close>

text \<open>
  The driver is built for the 64-bit STM32MP2 parts: \<open>uintptr_t\<close>, \<open>size_t\<close> and \<open>paddr_t\<close>
  are 64-bit words, register offsets are computed on 32 bits.
\<close>

definition RISAF_REG_BASE :: u32 where "RISAF_REG_BASE = 0x40"
definition RISAF_REG_SIZE :: u32 where "RISAF_REG_SIZE = 0x40"

definition RISAF_REG :: "u32 \<Rightarrow> u32" where
  "RISAF_REG n = RISAF_REG_BASE + (n - 1) * RISAF_REG_SIZE"

definition RISAF_REG_CFGR :: "u32 \<Rightarrow> nat" where "RISAF_REG_CFGR n = unat (RISAF_REG n + 0x0)"
definition RISAF_REG_STARTR :: "u32 \<Rightarrow> nat" where "RISAF_REG_STARTR n = unat (RISAF_REG n + 0x4)"
definition RISAF_REG_ENDR :: "u32 \<Rightarrow> nat" where "RISAF_REG_ENDR n = unat (RISAF_REG n + 0x8)"
definition RISAF_REG_CIDCFGR :: "u32 \<Rightarrow> nat" where "RISAF_REG_CIDCFGR n = unat (RISAF_REG n + 0xC)"

definition RISAF_REG_CFGR_BREN_SHIFT :: nat where "RISAF_REG_CFGR_BREN_SHIFT = 0"
definition RISAF_REG_CFGR_BREN :: u32 where "RISAF_REG_CFGR_BREN = BIT RISAF_REG_CFGR_BREN_SHIFT"
definition RISAF_REG_CFGR_SEC_SHIFT :: nat where "RISAF_REG_CFGR_SEC_SHIFT = 8"
definition RISAF_REG_CFGR_SEC :: u32 where "RISAF_REG_CFGR_SEC = BIT RISAF_REG_CFGR_SEC_SHIFT"
definition RISAF_REG_CFGR_PRIVC_SHIFT :: nat where "RISAF_REG_CFGR_PRIVC_SHIFT = 16"
definition RISAF_REG_CFGR_PRIVC_MASK :: u32 where "RISAF_REG_CFGR_PRIVC_MASK = GENMASK_32 23 16"
definition RISAF_REG_CIDCFGR_RDENC_SHIFT :: nat where "RISAF_REG_CIDCFGR_RDENC_SHIFT = 0"
definition RISAF_REG_CIDCFGR_RDENC_MASK :: u32 where "RISAF_REG_CIDCFGR_RDENC_MASK = GENMASK_32 7 0"
definition RISAF_REG_CIDCFGR_WRENC_SHIFT :: nat where "RISAF_REG_CIDCFGR_WRENC_SHIFT = 16"
definition RISAF_REG_CIDCFGR_WRENC_MASK :: u32 where "RISAF_REG_CIDCFGR_WRENC_MASK = GENMASK_32 23 16"

definition RISAF_REG_CIDCFGR_ALL_MASK :: u32 where
  "RISAF_REG_CIDCFGR_ALL_MASK = RISAF_REG_CIDCFGR_RDENC_MASK OR RISAF_REG_CIDCFGR_WRENC_MASK"

definition RISAF_REG_READ_OK :: "u32 \<Rightarrow> u32 \<Rightarrow> bool" where
  "RISAF_REG_READ_OK reg cid \<longleftrightarrow>
     reg AND push_bit RISAF_REG_CIDCFGR_RDENC_SHIFT (BIT (unat cid)) \<noteq> 0"

definition RISAF_REG_WRITE_OK :: "u32 \<Rightarrow> u32 \<Rightarrow> bool" where
  "RISAF_REG_WRITE_OK reg cid \<longleftrightarrow>
     reg AND push_bit RISAF_REG_CIDCFGR_WRENC_SHIFT (BIT (unat cid)) \<noteq> 0"

text \<open>
  The layout of a RISAF device-tree cell and the location of the OP-TEE memory come from
  headers that are not among the sources; the driver is modelled for any values of them.
  \<open>cfg_stm32mp21\<close> is the build option \<open>CFG_STM32MP21\<close>, which moves the encryption field.
\<close>

record risaf_bindings =
  DT_RISAF_REG_ID_MASK :: u32
  DT_RISAF_EN_MASK :: u32
  DT_RISAF_EN_SHIFT :: nat
  DT_RISAF_SEC_MASK :: u32
  DT_RISAF_SEC_SHIFT :: nat
  DT_RISAF_ENC_MASK :: u32
  DT_RISAF_ENC_SHIFT :: nat
  DT_RISAF_PRIV_MASK :: u32
  DT_RISAF_PRIV_SHIFT :: nat
  DT_RISAF_WRITE_MASK :: u32
  DT_RISAF_WRITE_SHIFT :: nat
  DT_RISAF_READ_MASK :: u32
  DT_RISAF_READ_SHIFT :: nat
  TZDRAM_BASE :: u64
  TZDRAM_RESERVED_SIZE :: u64
  cfg_stm32mp21 :: bool

definition RISAF_REG_CFGR_ENC_SHIFT :: "risaf_bindings \<Rightarrow> nat" where
  "RISAF_REG_CFGR_ENC_SHIFT B = (if cfg_stm32mp21 B then 14 else 15)"

definition RISAF_REG_CFGR_ENC :: "risaf_bindings \<Rightarrow> u32" where
  "RISAF_REG_CFGR_ENC B = (if cfg_stm32mp21 B then GENMASK_32 15 14 else BIT 15)"

definition RISAF_REG_CFGR_ALL_MASK :: "risaf_bindings \<Rightarrow> u32" where
  "RISAF_REG_CFGR_ALL_MASK B =
     RISAF_REG_CFGR_BREN OR RISAF_REG_CFGR_SEC OR RISAF_REG_CFGR_ENC B OR RISAF_REG_CFGR_PRIVC_MASK"

definition RISAF_GET_REGION_ID :: "risaf_bindings \<Rightarrow> u32 \<Rightarrow> u32" where
  "RISAF_GET_REGION_ID B c = c AND DT_RISAF_REG_ID_MASK B"

definition RISAF_GET_REGION_CFG :: "risaf_bindings \<Rightarrow> u32 \<Rightarrow> u32" where
  "RISAF_GET_REGION_CFG B c =
     push_bit RISAF_REG_CFGR_BREN_SHIFT (drop_bit (DT_RISAF_EN_SHIFT B) (c AND DT_RISAF_EN_MASK B)) OR
     push_bit RISAF_REG_CFGR_SEC_SHIFT (drop_bit (DT_RISAF_SEC_SHIFT B) (c AND DT_RISAF_SEC_MASK B)) OR
     push_bit (RISAF_REG_CFGR_ENC_SHIFT B)
       (drop_bit (if cfg_stm32mp21 B then DT_RISAF_ENC_SHIFT B else DT_RISAF_ENC_SHIFT B + 1)
          (c AND DT_RISAF_ENC_MASK B)) OR
     push_bit RISAF_REG_CFGR_PRIVC_SHIFT (drop_bit (DT_RISAF_PRIV_SHIFT B) (c AND DT_RISAF_PRIV_MASK B))"

definition RISAF_GET_REGION_CID_CFG :: "risaf_bindings \<Rightarrow> u32 \<Rightarrow> u32" where
  "RISAF_GET_REGION_CID_CFG B c =
     push_bit RISAF_REG_CIDCFGR_WRENC_SHIFT (drop_bit (DT_RISAF_WRITE_SHIFT B) (c AND DT_RISAF_WRITE_MASK B)) OR
     push_bit RISAF_REG_CIDCFGR_RDENC_SHIFT (drop_bit (DT_RISAF_READ_SHIFT B) (c AND DT_RISAF_READ_MASK B))"

record stm32_risaf_region =
  cfg :: u32
  addr :: u64
  len :: u64

record stm32_risaf_pdata =
  risaf_base :: vaddr
  regions :: "stm32_risaf_region list"
  nregions :: u32
  mem_base :: u64
  mem_size :: u64
  enc_supported :: bool

record stm32_risaf_ddata =
  mask_regions :: u32
  max_base_regions :: u32
  granularity :: u32

record stm32_risaf_instance =
  risaf_pdata :: stm32_risaf_pdata
  risaf_ddata :: stm32_risaf_ddata

text \<open>
  \<open>risaf_check_region_boundaries\<close> touches no register: it computes on the region and on
  the instance data only, so the model takes no device state. The end address of the memory
  and the last address of the region are computed on 64 bits and wrap around.
\<close>

definition risaf_check_region_boundaries ::
  "stm32_risaf_instance \<Rightarrow> stm32_risaf_region \<Rightarrow> fault + tee_result" where
  "risaf_check_region_boundaries risaf region =
     (if len region = 0 then Inl AssertFailed
      else if addr region < mem_base (risaf_pdata risaf) then Inr TEE_ERROR_BAD_PARAMETERS
      else
        let end_paddr = mem_base (risaf_pdata risaf) + (mem_size (risaf_pdata risaf) - 1) in
        if addr region > end_paddr \<or> addr region - 1 + len region > end_paddr
        then Inr TEE_ERROR_BAD_PARAMETERS
        else if granularity (risaf_ddata risaf) = 0 \<or>
                addr region mod ucast (granularity (risaf_ddata risaf)) \<noteq> 0 \<or>
                len region mod ucast (granularity (risaf_ddata risaf)) \<noteq> 0
        then Inr TEE_ERROR_BAD_PARAMETERS
        else Inr TEE_SUCCESS)"

text \<open>
  Modelled from the spec: \<open>core_is_buffer_intersect\<close> (the core's buffer helper, not among
  the sources) is the test that the two ranges \<open>[b, b + bl)\<close> and \<open>[a, a + al)\<close> have an
  address in common.
\<close>

definition core_is_buffer_intersect :: "u64 \<Rightarrow> u64 \<Rightarrow> u64 \<Rightarrow> u64 \<Rightarrow> bool" where
  "core_is_buffer_intersect b bl a al \<longleftrightarrow>
     max (unat b) (unat a) < min (unat b + unat bl) (unat a + unat al)"

text \<open>
  The loop of \<open>risaf_check_overlap\<close> over the entries before \<open>index\<close>, from entry \<open>i\<close> on.
  The caller passes the array and an index inside it.
\<close>

function risaf_check_overlap_from :: "stm32_risaf_region list \<Rightarrow> nat \<Rightarrow> nat \<Rightarrow> tee_result" where
  "risaf_check_overlap_from region index i =
     (if i < index then
        (if cfg (region ! i) = 0 then risaf_check_overlap_from region index (Suc i)
         else if core_is_buffer_intersect (addr (region ! index)) (len (region ! index))
                   (addr (region ! i)) (len (region ! i))
         then TEE_ERROR_GENERIC
         else risaf_check_overlap_from region index (Suc i))
      else TEE_SUCCESS)"
  by pat_completeness auto
termination
  by (relation "measure (\<lambda>(region, index, i). index - i)") auto

definition risaf_check_overlap :: "stm32_risaf_region list \<Rightarrow> nat \<Rightarrow> fault + tee_result" where
  "risaf_check_overlap region index =
     (if length region \<le> index then Inl OutOfBounds
      else Inr (risaf_check_overlap_from region index 0))"

definition risaf_configure_region ::
  "risaf_bindings \<Rightarrow> 'h device \<Rightarrow> stm32_risaf_instance \<Rightarrow> u32 \<Rightarrow> u32 \<Rightarrow> u32 \<Rightarrow> u64 \<Rightarrow> u64 \<Rightarrow>
   'h mmio \<Rightarrow> tee_result \<times> 'h mmio" where
  "risaf_configure_region B D risaf region_id c cid_cfg saddr eaddr s =
     (let b = risaf_base (risaf_pdata risaf);
          m = mask_regions (risaf_ddata risaf);
          s1 = io_clrbits32 D (b + RISAF_REG_CFGR region_id) RISAF_REG_CFGR_BREN s;
          s2 = io_clrsetbits32 D (b + RISAF_REG_STARTR region_id) m
                 (ucast (saddr - mem_base (risaf_pdata risaf)) AND m) s1;
          s3 = io_clrsetbits32 D (b + RISAF_REG_ENDR region_id) m
                 (ucast (eaddr - mem_base (risaf_pdata risaf)) AND m) s2;
          s4 = io_clrsetbits32 D (b + RISAF_REG_CIDCFGR region_id) RISAF_REG_CIDCFGR_ALL_MASK
                 (cid_cfg AND RISAF_REG_CIDCFGR_ALL_MASK) s3;
          s5 = io_clrsetbits32 D (b + RISAF_REG_CFGR region_id) (RISAF_REG_CFGR_ALL_MASK B)
                 (c AND RISAF_REG_CFGR_ALL_MASK B) s4
      in if c AND RISAF_REG_CFGR_ENC B \<noteq> 0 then
           (if \<not> enc_supported (risaf_pdata risaf) then (TEE_ERROR_GENERIC, s5)
            else if \<not> cfg_stm32mp21 B \<and> c AND BIT 14 \<noteq> 0 then (TEE_ERROR_NOT_SUPPORTED, s5)
            else if c AND RISAF_REG_CFGR_SEC \<noteq> RISAF_REG_CFGR_SEC then (TEE_ERROR_GENERIC, s5)
            else (TEE_SUCCESS, s5))
         else (TEE_SUCCESS, s5))"

text \<open>
  The region loop of \<open>stm32_risaf_probe\<close>. Each \<open>memory-region\<close> phandle of the device tree
  is given by what the probe reads from it: whether the node is found, its \<open>reg\<close> base and
  size, and its \<open>st,protreg\<close> cell if it has one.
\<close>

record dt_memory_region =
  node_found :: bool
  reg_base :: u64
  reg_size :: u64
  protreg :: "u32 option"

definition risaf_probe_region ::
  "risaf_bindings \<Rightarrow> 'h device \<Rightarrow> stm32_risaf_instance \<Rightarrow> nat \<Rightarrow> dt_memory_region \<Rightarrow>
   stm32_risaf_region list \<Rightarrow> 'h mmio \<Rightarrow> fault + stm32_risaf_region list \<times> 'h mmio" where
  "risaf_probe_region B D risaf i e rs s =
     (if length rs \<le> i then Inl OutOfBounds
      else if \<not> node_found e then Inr (rs, s)
      else
        let rs1 = rs[i := (rs ! i)\<lparr>addr := reg_base e, len := reg_size e\<rparr>] in
        if len (rs1 ! i) = 0 then Inr (rs1, s)
        else if addr (rs1 ! i) = TZDRAM_BASE B \<and> len (rs1 ! i) = TZDRAM_RESERVED_SIZE B
        then Inr (rs1, s)
        else
          case protreg e of
            None \<Rightarrow> Inr (rs1, s)
          | Some p \<Rightarrow>
              let rs2 = rs1[i := (rs1 ! i)\<lparr>cfg := p\<rparr>] in
              bindf (risaf_check_region_boundaries risaf (rs2 ! i))
                (\<lambda>res1.
                   if res1 \<noteq> TEE_SUCCESS then Inl Panic
                   else
                     bindf (risaf_check_overlap rs2 i)
                       (\<lambda>res2.
                          if res2 \<noteq> TEE_SUCCESS then Inl Panic
                          else
                            let ident = RISAF_GET_REGION_ID B (cfg (rs2 ! i)) in
                            if \<not> ident < max_base_regions (risaf_ddata risaf) then Inl AssertFailed
                            else
                              let start_addr = addr (rs2 ! i);
                                  end_addr = start_addr + len (rs2 ! i) - 1
                              in case risaf_configure_region B D risaf ident
                                        (RISAF_GET_REGION_CFG B (cfg (rs2 ! i)))
                                        (RISAF_GET_REGION_CID_CFG B (cfg (rs2 ! i)))
                                        start_addr end_addr s of
                                   (res3, s') \<Rightarrow>
                                     if res3 \<noteq> TEE_SUCCESS then Inl Panic else Inr (rs2, s'))))"

fun risaf_probe_regions_from ::
  "risaf_bindings \<Rightarrow> 'h device \<Rightarrow> stm32_risaf_instance \<Rightarrow> nat \<Rightarrow> dt_memory_region list \<Rightarrow>
   stm32_risaf_region list \<Rightarrow> 'h mmio \<Rightarrow> fault + stm32_risaf_region list \<times> 'h mmio" where
  "risaf_probe_regions_from B D risaf i [] rs s = Inr (rs, s)"
| "risaf_probe_regions_from B D risaf i (e # es) rs s =
     (case risaf_probe_region B D risaf i e rs s of
        Inl f \<Rightarrow> Inl f
      | Inr (rs', s') \<Rightarrow> risaf_probe_regions_from B D risaf (Suc i) es rs' s')"

text \<open>The array comes from \<open>calloc\<close>: one zeroed entry for each phandle.\<close>

definition risaf_probe_regions ::
  "risaf_bindings \<Rightarrow> 'h device \<Rightarrow> stm32_risaf_instance \<Rightarrow> dt_memory_region list \<Rightarrow> 'h mmio \<Rightarrow>
   fault + stm32_risaf_region list \<times> 'h mmio" where
  "risaf_probe_regions B D risaf es s =
     risaf_probe_regions_from B D risaf 0 es
       (replicate (length es) \<lparr>cfg = 0, addr = 0, len = 0\<rparr>) s"

text \<open>
  \<open>stm32_risaf_acquire_access\<close>. \<open>tdcid\<close> is the file-scope flag \<open>is_tdcid\<close>, \<open>clk_res\<close> is
  what \<open>clk_enable\<close> returns. The call only reads registers.
\<close>

definition stm32_risaf_acquire_access ::
  "risaf_bindings \<Rightarrow> 'h device \<Rightarrow> stm32_risaf_instance \<Rightarrow> bool \<Rightarrow> tee_result \<Rightarrow> firewall_query \<Rightarrow>
   bool \<Rightarrow> bool \<Rightarrow> 'h mmio \<Rightarrow> fault + tee_result" where
  "stm32_risaf_acquire_access B D risaf tdcid clk_res fw rd wr s =
     (if arg_count fw \<noteq> 1 then Inr TEE_ERROR_BAD_PARAMETERS
      else if args fw = [] then Inl OutOfBounds
      else
        let ident = RISAF_GET_REGION_ID B (args fw ! 0) in
        if ident = 0 \<or> ident \<ge> nregions (risaf_pdata risaf) then Inr TEE_ERROR_BAD_PARAMETERS
        else if clk_res \<noteq> TEE_SUCCESS then Inr clk_res
        else
          let cfgr = io_read32 D (risaf_base (risaf_pdata risaf) + RISAF_REG_CFGR ident) s;
              cidcfgr = io_read32 D (risaf_base (risaf_pdata risaf) + RISAF_REG_CIDCFGR ident) s
          in if (cfgr AND RISAF_REG_CFGR_BREN = 0 \<and> \<not> tdcid) \<or>
                cfgr AND RISAF_REG_CFGR_SEC = 0 \<or>
                (cidcfgr \<noteq> 0 \<and>
                 ((rd \<and> \<not> RISAF_REG_READ_OK cidcfgr RIF_CID1) \<or>
                  (wr \<and> \<not> RISAF_REG_WRITE_OK cidcfgr RIF_CID1)))
             then Inr TEE_ERROR_ACCESS_DENIED
             else Inr TEE_SUCCESS)"


section \<open>Vocabulary of the properties\<close>

text \<open>The result code of a call, without the final state.\<close>

definition result_of :: "fault + tee_result \<times> 'a \<Rightarrow> fault + tee_result" where
  "result_of out = map_sum id fst out"

text \<open>The writes a call has issued: those of the final log that follow the initial log.\<close>

definition new_writes :: "'h mmio \<Rightarrow> 'h mmio \<Rightarrow> (vaddr \<times> u32) list" where
  "new_writes s s' = drop (length (wlog s)) (wlog s')"

text \<open>
  The semaphore at \<open>a\<close> is held by compartment 1: the mutex bit is set and the holder field
  (bits 6 to 4, the mask of \<open>MAX_CID_SUPPORTED\<close>) reads 1.
\<close>

definition sem_held_by_cid1 :: "'h device \<Rightarrow> vaddr \<Rightarrow> 'h mmio \<Rightarrow> bool" where
  "sem_held_by_cid1 D a s \<longleftrightarrow>
     mutex_taken (io_read32 D a s) \<and> holder_cid MAX_CID_SUPPORTED (io_read32 D a s) = RIF_CID1"


text \<open>The registers of one RISUP, and the two register files only the TDCID may write.\<close>

definition risup_seccfgr_addr :: "rifsc_platdata \<Rightarrow> risup_cfg \<Rightarrow> vaddr" where
  "risup_seccfgr_addr pdata r = base pdata + RIFSC_RISC_SECCFGR0 + risup_offset r"

definition risup_privcfgr_addr :: "rifsc_platdata \<Rightarrow> risup_cfg \<Rightarrow> vaddr" where
  "risup_privcfgr_addr pdata r = base pdata + RIFSC_RISC_PRIVCFGR0 + risup_offset r"

definition risup_semcr_addr :: "rifsc_platdata \<Rightarrow> risup_cfg \<Rightarrow> vaddr" where
  "risup_semcr_addr pdata r = base pdata + RIFSC_RISC_PER0_SEMCR + risup_cidcfgr_offset r"

definition risup_rcfglockr_addr :: "rifsc_platdata \<Rightarrow> risup_cfg \<Rightarrow> vaddr" where
  "risup_rcfglockr_addr pdata r = base pdata + RIFSC_RISC_RCFGLOCKR0 + risup_offset r"

definition risup_secured :: "'h device \<Rightarrow> rifsc_platdata \<Rightarrow> risup_cfg \<Rightarrow> 'h mmio \<Rightarrow> bool" where
  "risup_secured D pdata r s \<longleftrightarrow> bit (io_read32 D (risup_seccfgr_addr pdata r) s) (risup_shift r)"

definition is_cidcfgr_addr :: "rifsc_platdata \<Rightarrow> vaddr \<Rightarrow> bool" where
  "is_cidcfgr_addr pdata a \<longleftrightarrow>
     base pdata + RIFSC_RISC_PER0_CIDCFGR \<le> a \<and>
     (a - (base pdata + RIFSC_RISC_PER0_CIDCFGR)) mod OFFSET_PERX_CIDCFGR = 0"

definition is_rcfglockr_addr :: "rifsc_platdata \<Rightarrow> vaddr \<Rightarrow> bool" where
  "is_rcfglockr_addr pdata a \<longleftrightarrow>
     base pdata + RIFSC_RISC_RCFGLOCKR0 \<le> a \<and> a < base pdata + RIFSC_RISC_RCFGLOCKR0 + 0x20"


text \<open>The attribute writes of \<open>stm32_risup_cfg\<close> that every compartment performs.\<close>

definition sec_writes :: "'h device \<Rightarrow> rifsc_platdata \<Rightarrow> risup_cfg \<Rightarrow> 'h mmio \<Rightarrow> (vaddr \<times> u32) list" where
  "sec_writes D pdata r s =
     (if sec_en (drv_data pdata)
      then [(risup_seccfgr_addr pdata r,
             (io_read32 D (risup_seccfgr_addr pdata r) s AND NOT (BIT (risup_shift r))) OR
             push_bit (risup_shift r) (bool_u32 (sec r)))]
      else [])"

definition priv_writes :: "'h device \<Rightarrow> rifsc_platdata \<Rightarrow> risup_cfg \<Rightarrow> 'h mmio \<Rightarrow> (vaddr \<times> u32) list" where
  "priv_writes D pdata r s =
     (if priv_en (drv_data pdata)
      then [(risup_privcfgr_addr pdata r,
             (io_read32 D (risup_privcfgr_addr pdata r) s AND NOT (BIT (risup_shift r))) OR
             push_bit (risup_shift r) (bool_u32 (priv r)))]
      else [])"

definition after_sec_write :: "'h device \<Rightarrow> rifsc_platdata \<Rightarrow> risup_cfg \<Rightarrow> 'h mmio \<Rightarrow> 'h mmio" where
  "after_sec_write D pdata r s =
     (if sec_en (drv_data pdata)
      then io_clrsetbits32 D (risup_seccfgr_addr pdata r) (BIT (risup_shift r))
             (push_bit (risup_shift r) (bool_u32 (sec r))) s
      else s)"

text \<open>The attribute a peripheral has now: its two-bit field of the DECPROT registers.\<close>

definition current_decprot :: "'h device \<Rightarrow> etzpc_device \<Rightarrow> u32 \<Rightarrow> 'h mmio \<Rightarrow> etzpc_decprot_attributes" where
  "current_decprot D dev decprot_id s =
     u32_decprot
       (drop_bit (decprot_field_shift decprot_id)
          (io_read32 D (etzpc_base dev + ETZPC_DECPROT0 + decprot_offset decprot_id) s)
        AND ETZPC_DECPROT0_MASK)"

text \<open>
  A device-tree region is registered by the probe when its node is found, its size is not
  zero, it is not the OP-TEE memory and it carries a non-zero \<open>st,protreg\<close> cell; the entry
  of the region array is then \<open>dt_region\<close>, and it covers the addresses \<open>dt_address_range\<close>.
\<close>

definition dt_region_registered :: "risaf_bindings \<Rightarrow> dt_memory_region \<Rightarrow> bool" where
  "dt_region_registered B e \<longleftrightarrow>
     node_found e \<and> reg_size e \<noteq> 0 \<and>
     \<not> (reg_base e = TZDRAM_BASE B \<and> reg_size e = TZDRAM_RESERVED_SIZE B) \<and>
     (case protreg e of None \<Rightarrow> False | Some p \<Rightarrow> p \<noteq> 0)"

definition dt_region :: "dt_memory_region \<Rightarrow> stm32_risaf_region" where
  "dt_region e = \<lparr>cfg = (case protreg e of None \<Rightarrow> 0 | Some p \<Rightarrow> p), addr = reg_base e, len = reg_size e\<rparr>"

definition dt_address_range :: "dt_memory_region \<Rightarrow> nat set" where
  "dt_address_range e = {unat (reg_base e) ..< unat (reg_base e) + unat (reg_size e)}"

section \<open>Concrete inputs\<close>

text \<open>
  A RIFSC with 128 RISUPs at base 0, run by a compartment that is not the TDCID, and the
  resource of scenario B: RISUP 3, secure, filtering and semaphore mode enabled, white-list
  \<open>{1, 2}\<close>. All registers read zero at the start.
\<close>

definition example_pdata :: rifsc_platdata where
  "example_pdata =
     \<lparr>base = 0,
      drv_data = \<lparr>version = 0, nb_rimu = 16, nb_risup = 128, rif_en = True, sec_en = True,
                  priv_en = True\<rparr>,
      risup = [], nrisup = 0, rimu = [], nrimu = 0, is_tdcid = False, errata_ahbrisab = False,
      rimu_risup = [], cfg_insecure = False\<rparr>"

definition example_risup :: risup_cfg where
  "example_risup =
     \<lparr>cid_attr = 0x60003, risup_id = 3, sec = True, priv = False, lock = False, pm_sem = False\<rparr>"

definition zero_regs :: "(vaddr \<Rightarrow> u32) mmio" where
  "zero_regs = \<lparr>hw = (\<lambda>a. 0), wlog = []\<rparr>"


text \<open>
  An ETZPC with 96 peripherals and two TZMA at base 0. The cell layout (identifier in bits
  7 to 0, mode in bits 9 and 8, lock in bit 10) and the memory map are sample values for
  running the model; the theorems do not depend on them.
\<close>

definition example_etzpc_bindings :: etzpc_bindings where
  "example_etzpc_bindings =
     \<lparr>ETZPC_ID_MASK = 0xFF, ETZPC_MODE_MASK = 0x300, ETZPC_MODE_SHIFT = 8, ETZPC_LOCK_MASK = 0x400,
      DECPROT_S_RW = 0, DECPROT_NS_R_S_W = 1, DECPROT_MCU_ISOLATION = 2, DECPROT_NS_RW = 3,
      ETZPC_TZMA0_ID = 200, ETZPC_TZMA1_ID = 201,
      STM32MP1_ETZPC_SRAM1_ID = 80, STM32MP1_ETZPC_SRAM2_ID = 81, STM32MP1_ETZPC_SRAM3_ID = 82,
      STM32MP1_ETZPC_SRAM4_ID = 83, STM32MP1_ETZPC_RETRAM_ID = 84,
      ROM_BASE = 0, ROM_SIZE = 0x20000, SYSRAM_BASE = 0x2FFC0000, SYSRAM_SIZE = 0x40000,
      SYSRAM_SEC_SIZE = 0x40000,
      SRAM1_BASE = 0x30000000, SRAM1_SIZE = 0x20000, SRAM2_BASE = 0x30020000, SRAM2_SIZE = 0x20000,
      SRAM3_BASE = 0x30040000, SRAM3_SIZE = 0x10000, SRAM4_BASE = 0x30050000, SRAM4_SIZE = 0x10000,
      RETRAM_BASE = 0x38000000, RETRAM_SIZE = 0x10000, SMALL_PAGE_SIZE = 0x1000,
      cfg_stm32mp15 = True, cfg_with_pager = False,
      stm32mp1_pa_or_sram_alias_pa = (\<lambda>pa. pa),
      stm32mp1_ram_intersect_pager_ram = (\<lambda>b sz. False)\<rparr>"

definition example_etzpc :: etzpc_device where
  "example_etzpc = \<lparr>etzpc_base = 0, ddata = \<lparr>num_tzma = 2, num_per_sec = 96, num_ahb_sec = 0\<rparr>\<rparr>"

text \<open>
  A RISAF with 16 regions over 4 GiB of memory at \<open>0x80000000\<close>, granularity \<open>0x1000\<close>, with
  a sample cell layout (region in bits 3 to 0, enable bit 4, secure bit 5, encryption bits 7
  and 6, privileged CIDs in bits 15 to 8, read CIDs in bits 23 to 16, write CIDs above).
\<close>

definition example_risaf_bindings :: risaf_bindings where
  "example_risaf_bindings =
     \<lparr>DT_RISAF_REG_ID_MASK = 0xF, DT_RISAF_EN_MASK = 0x10, DT_RISAF_EN_SHIFT = 4,
      DT_RISAF_SEC_MASK = 0x20, DT_RISAF_SEC_SHIFT = 5,
      DT_RISAF_ENC_MASK = 0xC0, DT_RISAF_ENC_SHIFT = 6,
      DT_RISAF_PRIV_MASK = 0xFF00, DT_RISAF_PRIV_SHIFT = 8,
      DT_RISAF_WRITE_MASK = 0xFF000000, DT_RISAF_WRITE_SHIFT = 24,
      DT_RISAF_READ_MASK = 0xFF0000, DT_RISAF_READ_SHIFT = 16,
      TZDRAM_BASE = 0x82000000, TZDRAM_RESERVED_SIZE = 0x2000000, cfg_stm32mp21 = False\<rparr>"

definition example_risaf :: stm32_risaf_instance where
  "example_risaf =
     \<lparr>risaf_pdata = \<lparr>risaf_base = 0, regions = [], nregions = 16, mem_base = 0x80000000,
                     mem_size = 0x100000000, enc_supported = False\<rparr>,
      risaf_ddata = \<lparr>mask_regions = 0xFFFFF000, max_base_regions = 16, granularity = 0x1000\<rparr>\<rparr>"


text \<open>
  ETZPC registers in which peripheral 5 is MCU-isolated (scenario C), and RISAF registers in
  which region 2 is enabled and secure with an all-zero CIDCFGR.
\<close>

definition mcu_isolated_5 :: "(vaddr \<Rightarrow> u32) mmio" where
  "mcu_isolated_5 = \<lparr>hw = (\<lambda>a. if a = 16 then 0x800 else 0), wlog = []\<rparr>"

definition secure_region_2 :: "(vaddr \<Rightarrow> u32) mmio" where
  "secure_region_2 = \<lparr>hw = (\<lambda>a. if a = 128 then 0x101 else 0), wlog = []\<rparr>"


text \<open>
  A sample layout of the RIF device-tree cell (resource index in bits 7 to 0, secure bit 8,
  privileged bit 9, lock bit 10, CID word from bit 12) for running the model; the theorems
  do not depend on it. \<open>tdcid_pdata\<close> is the example RIFSC run by the TDCID.
\<close>

definition example_rif_bindings :: rif_bindings where
  "example_rif_bindings =
     \<lparr>RIF_PER_ID_MASK = 0xFF, RIF_SEC_SHIFT = 8, RIF_PRIV_SHIFT = 9, RIF_LOCK_SHIFT = 10,
      RIF_PERx_CID_MASK = 0xFFFFF000, RIF_PERx_CID_SHIFT = 12,
      RIF_SCID_MASK = 0x70000, RIF_SCID_SHIFT = 16, RIMU_ID_OFFSET = 0xF0,
      RIMUPROT_RIMC_M_ID_MASK = 0xFF, RIMUPROT_RIMC_M_ID_SHIFT = 0,
      RIMUPROT_RIMC_ATTRx_MASK = 0xFFFFFF00, RIMUPROT_RIMC_ATTRx_SHIFT = 8\<rparr>"

definition tdcid_pdata :: rifsc_platdata where
  "tdcid_pdata = example_pdata\<lparr>is_tdcid := True, risup := replicate 8 example_risup, nrisup := 8\<rparr>"

text \<open>RIFSC registers in which RISUP 3 is locked (bit 3 of RCFGLOCKR0) and not secure.\<close>

definition locked_risup_3 :: "(vaddr \<Rightarrow> u32) mmio" where
  "locked_risup_3 = \<lparr>hw = (\<lambda>a. if a = 80 then 8 else 0), wlog = []\<rparr>"

text \<open>A device that keeps the bits of SECCFGR0 whose lock bit is set in RCFGLOCKR0.\<close>

definition locking_device :: "(vaddr \<Rightarrow> u32) device" where
  "locking_device =
     \<lparr>dev_read = (\<lambda>h a. h a),
      dev_write = (\<lambda>a v h. if a = 16 then h(a := (v AND NOT (h 80)) OR (h a AND h 80)) else h(a := v))\<rparr>"



text \<open>
  The resource of scenario B with the white-list \<open>{2}\<close>, which leaves compartment 1 out;
  registers in which the semaphore of RISUP 3 (offset \<open>0x11C\<close>) is held by compartment 1;
  and a device whose semaphore registers ignore every write.
\<close>

definition unlisted_risup :: risup_cfg where
  "unlisted_risup = example_risup\<lparr>cid_attr := 0x40003\<rparr>"

definition held_semaphore_3 :: "(vaddr \<Rightarrow> u32) mmio" where
  "held_semaphore_3 = \<lparr>hw = (\<lambda>a. if a = 284 then 0x11 else 0), wlog = []\<rparr>"

definition stuck_device :: "(vaddr \<Rightarrow> u32) device" where
  "stuck_device = \<lparr>dev_read = (\<lambda>h a. h a), dev_write = (\<lambda>a v h. if 260 \<le> a \<and> a mod 8 = 4 then h else h(a := v))\<rparr>"

text \<open>
  Two regions in the memory of the example RISAF that share the addresses from
  \<open>0x80002000\<close> to \<open>0x80002FFF\<close>.
\<close>

definition region_a :: dt_memory_region where
  "region_a = \<lparr>node_found = True, reg_base = 0x80001000, reg_size = 0x2000, protreg = Some 0x31\<rparr>"

definition region_b :: dt_memory_region where
  "region_b = \<lparr>node_found = True, reg_base = 0x80002000, reg_size = 0x2000, protreg = Some 0x32\<rparr>"

section \<open>Properties\<close>

subsection \<open>Bit-level facts\<close>

lemma and_bit0: "(w AND BIT n = 0) \<longleftrightarrow> \<not> bit w (n mod 32)" for w :: u32
  unfolding BIT_def
  by (metis and_exp_eq_0_iff_not_bit push_bit_of_1)


lemma risup_shift_mod [simp]: "risup_shift r mod 32 = risup_shift r"
  by (simp add: risup_shift_def PERIPH_IDS_PER_REG_def)

lemma masked_low: "push_bit 4 (drop_bit 4 (x AND GENMASK_32 h 4)) = x AND GENMASK_32 h 4"
  by (rule bit_eqI) (auto simp add: bit_simps GENMASK_32_def)

lemma cid_take_bit: "cid \<le> 7 \<Longrightarrow> take_bit 3 cid = cid" for cid :: u32
proof -
  assume "cid \<le> 7"
  then have "cid < 2 ^ 3" by (simp add: word_less_nat_alt word_le_nat_alt)
  then have "cid AND mask 3 = cid" by (rule less_mask_eq)
  then show ?thesis by (simp add: take_bit_eq_mask)
qed

lemma cid_high_bits: "cid \<le> 7 \<Longrightarrow> bit cid n \<Longrightarrow> n < 3" for cid :: u32
  by (metis cid_take_bit bit_take_bit_iff)

lemma drop_push_cid: "cid \<le> 7 \<Longrightarrow> drop_bit 4 (push_bit 4 cid) = cid" for cid :: u32
  by (rule bit_eqI) (auto simp add: bit_simps dest: cid_high_bits)

lemma unat_cid: "cid \<le> 7 \<Longrightarrow> unat cid \<le> 7" for cid :: u32
  by (simp add: word_le_nat_alt)

lemma semwl_bit: "cid \<le> 7 \<Longrightarrow> (cidcfgr AND CIDCFGR_SEMWL cid = 0) \<longleftrightarrow> \<not> bit cidcfgr (16 + unat cid)" for cid :: u32
proof -
  assume a: "cid \<le> 7"
  then have "unat cid \<le> 7" by (simp add: word_le_nat_alt)
  then have "unat (16 + cid) = 16 + unat cid" and "(16 + unat cid) mod 32 = 16 + unat cid"
    by (simp_all add: unat_word_ariths)
  then show ?thesis
    by (simp add: CIDCFGR_SEMWL_def CIDCFGR_SEMWL_SHIFT_def and_bit0)
qed

lemma masked_shift_eq:
  fixes x cid :: u32
  assumes "cid \<le> 7"
  shows "(x AND GENMASK_32 h 4 = push_bit 4 cid) \<longleftrightarrow> (drop_bit 4 (x AND GENMASK_32 h 4) = cid)"
proof
  assume "x AND GENMASK_32 h 4 = push_bit 4 cid"
  then have "drop_bit 4 (x AND GENMASK_32 h 4) = drop_bit 4 (push_bit 4 cid)" by simp
  also have "\<dots> = cid"
    using assms by (rule drop_push_cid)
  finally show "drop_bit 4 (x AND GENMASK_32 h 4) = cid" .
next
  assume "drop_bit 4 (x AND GENMASK_32 h 4) = cid"
  then show "x AND GENMASK_32 h 4 = push_bit 4 cid"
    using masked_low[of x h] by simp
qed

lemma small_word_cases:
  fixes nb :: u32
  assumes "nb \<le> 7"
  shows "nb = 0 \<or> nb = 1 \<or> nb = 2 \<or> nb = 3 \<or> nb = 4 \<or> nb = 5 \<or> nb = 6 \<or> nb = 7"
proof -
  have "unat nb \<le> 7" using assms by (simp add: word_le_nat_alt)
  then have "unat nb = 0 \<or> unat nb = 1 \<or> unat nb = 2 \<or> unat nb = 3 \<or> unat nb = 4
    \<or> unat nb = 5 \<or> unat nb = 6 \<or> unat nb = 7" by arith
  then have "unat nb = unat (0 :: u32) \<or> unat nb = unat (1 :: u32) \<or> unat nb = unat (2 :: u32)
    \<or> unat nb = unat (3 :: u32) \<or> unat nb = unat (4 :: u32) \<or> unat nb = unat (5 :: u32)
    \<or> unat nb = unat (6 :: u32) \<or> unat nb = unat (7 :: u32)" by simp
  then show ?thesis
    unfolding word_unat_eq_iff[symmetric] .
qed

lemma msb_small: "nb \<le> MAX_CID_SUPPORTED \<Longrightarrow> msb_nb_cid_supp nb < MAX_CID_BITFIELD"
proof -
  assume "nb \<le> MAX_CID_SUPPORTED"
  then have "nb \<le> 7" by (simp add: MAX_CID_SUPPORTED_def)
  from small_word_cases[OF this] show ?thesis
    by (elim disjE; hypsubst; code_simp)
qed

subsection \<open>The access decision of \<open>stm32_rif_check_access\<close>\<close>

text \<open>
  Claim C1, as amended. For every CID-filtering configuration word, every semaphore
  register value, every supported-compartment count of at most \<open>MAX_CID_SUPPORTED\<close> (7, the
  counts that pass the function's assertion) and every requesting CID from 0 to 7,
  \<open>stm32_rif_check_access\<close> returns success if filtering is disabled; with filtering enabled
  and semaphore mode off it returns success exactly when the requesting CID equals the
  static CID; with filtering and semaphore mode both enabled it returns success exactly when
  the requesting CID is white-listed and the mutex bit is clear or the reported holder is the
  requesting CID; in every other case it returns \<open>TEE_ERROR_ACCESS_DENIED\<close>.
\<close>

theorem check_access_decision:
  assumes nb: "nb_cid_supp \<le> MAX_CID_SUPPORTED" and cid: "cid \<le> MAX_CID_SUPPORTED"
  shows "stm32_rif_check_access cidcfgr semcr nb_cid_supp cid =
    Inr (if \<not> cid_filtering_enabled cidcfgr then TEE_SUCCESS
         else if \<not> semaphore_enabled cidcfgr then
           (if cid = static_cid nb_cid_supp cidcfgr then TEE_SUCCESS else TEE_ERROR_ACCESS_DENIED)
         else if semaphore_whitelisted cidcfgr cid \<and>
                 (\<not> mutex_taken semcr \<or> holder_cid nb_cid_supp semcr = cid)
           then TEE_SUCCESS else TEE_ERROR_ACCESS_DENIED)"
proof -
  have c7: "cid \<le> 7" using cid by (simp add: MAX_CID_SUPPORTED_def)
  have m: "msb_nb_cid_supp nb_cid_supp < MAX_CID_BITFIELD" using nb by (rule msb_small)
  have scid: "SCID_OK cidcfgr (scid_mask nb_cid_supp) cid \<longleftrightarrow>
      static_cid nb_cid_supp cidcfgr = cid \<and> \<not> semaphore_enabled cidcfgr"
    using masked_shift_eq[OF c7, of cidcfgr]
    by (simp add: SCID_OK_def static_cid_def scid_mask_def CIDCFGR_SCID_SHIFT_def
        semaphore_enabled_def CIDCFGR_SEMEN_def and_bit0)
  have sem: "SEM_EN_AND_OK cidcfgr cid \<longleftrightarrow>
      cid_filtering_enabled cidcfgr \<and> semaphore_enabled cidcfgr \<and> semaphore_whitelisted cidcfgr cid"
    by (simp add: SEM_EN_AND_OK_def cid_filtering_enabled_def semaphore_enabled_def
        semaphore_whitelisted_def CIDCFGR_CFEN_def CIDCFGR_SEMEN_def and_bit0 semwl_bit[OF c7])
  show ?thesis
    using m
    by (auto simp add: stm32_rif_check_access_def scid sem cid_filtering_enabled_def
        CIDCFGR_CFEN_def and_bit0 mutex_taken_def SEMCR_MUTEX_def holder_cid_def
        CIDCFGR_SCID_SHIFT_def)
qed

theorem check_access_decision_witness:
  "(7 :: u32) \<le> MAX_CID_SUPPORTED \<and> (1 :: u32) \<le> MAX_CID_SUPPORTED \<and>
   stm32_rif_check_access 0x20003 0x11 7 1 = Inr TEE_SUCCESS \<and>
   stm32_rif_check_access 0x20003 0x21 7 1 = Inr TEE_ERROR_ACCESS_DENIED \<and>
   stm32_rif_check_access 0x21 0 7 1 = Inr TEE_ERROR_ACCESS_DENIED"
proof -
  have a: "(7 :: u32) \<le> MAX_CID_SUPPORTED" and b: "(1 :: u32) \<le> MAX_CID_SUPPORTED"
    by (simp_all add: MAX_CID_SUPPORTED_def)
  have e1: "cid_filtering_enabled 0x20003" "semaphore_enabled 0x20003" "semaphore_whitelisted 0x20003 1"
    "mutex_taken 0x11" "holder_cid 7 0x11 = 1" "mutex_taken 0x21" "holder_cid 7 0x21 = 2"
    "cid_filtering_enabled 0x21" "\<not> semaphore_enabled 0x21" "static_cid 7 0x21 = 2"
    by code_simp+
  show ?thesis
    using check_access_decision[OF a b, of "0x20003" "0x11"]
      check_access_decision[OF a b, of "0x20003" "0x21"]
      check_access_decision[OF a b, of "0x21" "0"]
    by (simp add: a b e1)
qed

text \<open>
  The claim as first stated ranges over every count and every requesting CID. A count of 8
  fails the assertion \<open>msb_nb_cid_supp < MAX_CID_BITFIELD\<close> although filtering is disabled,
  and the requesting CID \<open>0x10000001\<close>, which \<open>cid << 4\<close> truncates to \<open>0x10\<close>, is granted
  access to a resource whose static CID is 1.
\<close>

theorem check_access_counterexample:
  "stm32_rif_check_access 0 0 8 1 = Inl AssertFailed \<and>
   \<not> cid_filtering_enabled 0 \<and>
   stm32_rif_check_access 0x11 0 7 0x10000001 = Inr TEE_SUCCESS \<and>
   cid_filtering_enabled 0x11 \<and> \<not> semaphore_enabled 0x11 \<and>
   static_cid 7 0x11 \<noteq> 0x10000001"
  by code_simp


subsection \<open>Releasing and taking a semaphore\<close>

lemma msb_max_cid: "msb_nb_cid_supp MAX_CID_SUPPORTED = 2"
  by code_simp

text \<open>
  With the count \<open>MAX_CID_SUPPORTED\<close> that every caller passes, the mask is the three-bit
  field of bits 6 to 4: the holder read by the semaphore functions is the SEMCID field of
  the register, and the static CID is the SCID field of CIDCFGR.
\<close>

lemma scid_mask_max_cid: "scid_mask MAX_CID_SUPPORTED = GENMASK_32 6 4"
  by (simp add: scid_mask_def msb_max_cid CIDCFGR_SCID_SHIFT_def)

lemma holder_cid_max_cid:
  "holder_cid MAX_CID_SUPPORTED semcr = RIF_FLD_GET SEMCR_SEMCID_MASK SEMCR_SEMCID_SHIFT semcr"
  by (simp add: holder_cid_def RIF_FLD_GET_def SEMCR_SEMCID_MASK_def SEMCR_SEMCID_SHIFT_def
      scid_mask_max_cid)

lemma static_cid_max_cid:
  "static_cid MAX_CID_SUPPORTED cidcfgr =
     RIF_FLD_GET RIFSC_RISC_CIDCFGR_SCID_MASK RIFSC_RISC_CIDCFGR_SCID_SHIFT cidcfgr"
  by (simp add: static_cid_def RIF_FLD_GET_def RIFSC_RISC_CIDCFGR_SCID_MASK_def
      RIFSC_RISC_CIDCFGR_SCID_SHIFT_def scid_mask_max_cid)

lemma acquire_semaphore_max_cid:
  "stm32_rif_acquire_semaphore D a MAX_CID_SUPPORTED s =
     (let s' = io_setbits32 D a SEMCR_MUTEX s
      in Inr (if sem_held_by_cid1 D a s' then TEE_SUCCESS else TEE_ERROR_ACCESS_DENIED, s'))"
  by (auto simp add: stm32_rif_acquire_semaphore_def stm32_rif_is_semaphore_available_def
      sem_held_by_cid1_def mutex_taken_def holder_cid_def SEMCR_MUTEX_def and_bit0 Let_def
      msb_max_cid MAX_CID_BITFIELD_def CIDCFGR_SCID_SHIFT_def)

lemma release_semaphore_max_cid:
  "stm32_rif_release_semaphore D a MAX_CID_SUPPORTED s =
     (if \<not> mutex_taken (io_read32 D a s) then Inr (TEE_SUCCESS, s)
      else let s' = io_clrbits32 D a SEMCR_MUTEX s
      in Inr (if sem_held_by_cid1 D a s' then TEE_ERROR_ACCESS_DENIED else TEE_SUCCESS, s'))"
  by (auto simp add: stm32_rif_release_semaphore_def stm32_rif_is_semaphore_available_def
      sem_held_by_cid1_def mutex_taken_def holder_cid_def SEMCR_MUTEX_def and_bit0 Let_def
      msb_max_cid MAX_CID_BITFIELD_def CIDCFGR_SCID_SHIFT_def)


text \<open>
  Claim C7. For every state of the semaphore register and every device behind it,
  \<open>stm32_rif_release_semaphore\<close> returns success and leaves the state as it is, with no
  write, when the semaphore reads free. Otherwise it issues one write that clears the mutex
  bit, reads the register again, and returns \<open>TEE_ERROR_ACCESS_DENIED\<close> exactly when the
  register then shows the mutex set with holder CID 1; if it reads free, or taken by another
  compartment, the result is success. The count \<open>nb\<close> is any count the function's assertion
  admits.
\<close>

theorem release_semaphore_behaviour:
  assumes "msb_nb_cid_supp nb \<le> MAX_CID_BITFIELD"
  shows "stm32_rif_release_semaphore D a nb s =
     Inr (if \<not> mutex_taken (io_read32 D a s) then (TEE_SUCCESS, s)
          else
            let s' = s\<lparr>hw := dev_write D a (io_read32 D a s AND NOT SEMCR_MUTEX) (hw s),
                       wlog := wlog s @ [(a, io_read32 D a s AND NOT SEMCR_MUTEX)]\<rparr>
            in (if mutex_taken (io_read32 D a s') \<and> holder_cid nb (io_read32 D a s') = RIF_CID1
                then TEE_ERROR_ACCESS_DENIED else TEE_SUCCESS, s'))"
  using assms
  by (simp add: stm32_rif_release_semaphore_def stm32_rif_is_semaphore_available_def
      mutex_taken_def holder_cid_def SEMCR_MUTEX_def and_bit0 Let_def io_clrbits32_def
      io_write32_def CIDCFGR_SCID_SHIFT_def)

theorem release_semaphore_behaviour_witness:
  "msb_nb_cid_supp 7 \<le> MAX_CID_BITFIELD \<and>
   result_of (stm32_rif_release_semaphore ram_device 260 7 zero_regs) = Inr TEE_SUCCESS \<and>
   (case stm32_rif_release_semaphore ram_device 260 7 zero_regs of
      Inl f \<Rightarrow> False | Inr (res, s') \<Rightarrow> wlog s' = wlog zero_regs) \<and>
   result_of (stm32_rif_release_semaphore sem_device 260 7 (zero_regs\<lparr>hw := (\<lambda>a. 17)\<rparr>)) =
     Inr TEE_SUCCESS \<and>
   result_of (stm32_rif_release_semaphore
                \<lparr>dev_read = (\<lambda>h a. h a), dev_write = (\<lambda>a v h. h)\<rparr> 260 7
                (zero_regs\<lparr>hw := (\<lambda>a. 17)\<rparr>)) = Inr TEE_ERROR_ACCESS_DENIED"
proof -
  have h: "msb_nb_cid_supp 7 \<le> MAX_CID_BITFIELD" by code_simp
  have e: "\<not> mutex_taken (io_read32 ram_device 260 zero_regs)" by code_simp
  have r1: "stm32_rif_release_semaphore ram_device 260 7 zero_regs = Inr (TEE_SUCCESS, zero_regs)"
    using release_semaphore_behaviour[OF h, of ram_device 260 zero_regs] e by simp
  have r2: "result_of (stm32_rif_release_semaphore sem_device 260 7 (zero_regs\<lparr>hw := (\<lambda>a. 17)\<rparr>)) =
     Inr TEE_SUCCESS"
    "result_of (stm32_rif_release_semaphore
                \<lparr>dev_read = (\<lambda>h a. h a), dev_write = (\<lambda>a v h. h)\<rparr> 260 7
                (zero_regs\<lparr>hw := (\<lambda>a. 17)\<rparr>)) = Inr TEE_ERROR_ACCESS_DENIED"
    by code_simp+
  show ?thesis
    using h r1 r2 by (simp add: result_of_def)
qed


subsection \<open>\<open>stm32_risup_cfg\<close>: the semaphore after configuration\<close>

lemma sem_mode_incorrect_iff:
  "SEM_MODE_INCORRECT c \<longleftrightarrow>
     \<not> cid_filtering_enabled c \<or> \<not> semaphore_enabled c \<or> \<not> semaphore_whitelisted c RIF_CID1"
  using semwl_bit[of 1 c]
  by (auto simp add: SEM_MODE_INCORRECT_def cid_filtering_enabled_def semaphore_enabled_def
      semaphore_whitelisted_def CIDCFGR_CFEN_def CIDCFGR_SEMEN_def and_bit0 RIF_CID1_def)

lemma settle_semaphore_eq:
  "risup_settle_semaphore D pdata r s =
     (if SEM_MODE_INCORRECT (cid_attr r) \<or> \<not> risup_secured D pdata r s
      then (if \<not> mutex_taken (io_read32 D (risup_semcr_addr pdata r) s) then Inr (TEE_SUCCESS, s)
            else let s' = io_clrbits32 D (risup_semcr_addr pdata r) SEMCR_MUTEX s
                 in Inr (if sem_held_by_cid1 D (risup_semcr_addr pdata r) s'
                         then TEE_ERROR_ACCESS_DENIED else TEE_SUCCESS, s'))
      else let s' = io_setbits32 D (risup_semcr_addr pdata r) SEMCR_MUTEX s
           in Inr (if sem_held_by_cid1 D (risup_semcr_addr pdata r) s'
                   then TEE_SUCCESS else TEE_ERROR_ACCESS_DENIED, s'))"
  by (simp add: risup_settle_semaphore_def acquire_semaphore_max_cid release_semaphore_max_cid
      risup_secured_def risup_seccfgr_addr_def risup_semcr_addr_def and_bit0 Let_def)


text \<open>
  Claim C2. Take a RISUP with a valid index whose configuration word has CID filtering and
  semaphore mode enabled, on any device and in any state. After the attribute writes
  \<open>stm32_risup_cfg\<close> settles the semaphore of the resource in one of two ways. When
  compartment 1 is white-listed and the security register reads the resource as secured, it
  issues one write to the semaphore register, with the mutex bit set, and returns
  \<open>TEE_SUCCESS\<close> exactly when the register then shows the semaphore held by compartment 1
  (mutex set, holder CID 1), \<open>TEE_ERROR_ACCESS_DENIED\<close> otherwise. When compartment 1 is not
  white-listed or the resource does not read as secured, it leaves a semaphore that reads
  free as it is, and otherwise issues one write to the semaphore register, with the mutex
  bit cleared, and returns \<open>TEE_ERROR_ACCESS_DENIED\<close> exactly when the register still
  shows the semaphore held by compartment 1, \<open>TEE_SUCCESS\<close> otherwise. The call has no
  other outcome and issues no other write after the attribute writes; after a successful
  call the semaphore is held by compartment 1 in the first case and not in the second.
\<close>

theorem risup_cfg_settles_semaphore:
  assumes valid: "unat (risup_id r) < unat (nb_risup (drv_data pdata))"
      and cfen: "cid_filtering_enabled (cid_attr r)"
      and semen: "semaphore_enabled (cid_attr r)"
  shows "stm32_risup_cfg D pdata r s =
     (let s1 = risup_write_attrs D pdata r s;
          a = risup_semcr_addr pdata r;
          v = io_read32 D a s1
      in if semaphore_whitelisted (cid_attr r) RIF_CID1 \<and> risup_secured D pdata r s1 then
           let s2 = s1\<lparr>hw := dev_write D a (v OR SEMCR_MUTEX) (hw s1),
                       wlog := wlog s1 @ [(a, v OR SEMCR_MUTEX)]\<rparr>
           in Inr (if sem_held_by_cid1 D a s2 then TEE_SUCCESS else TEE_ERROR_ACCESS_DENIED, s2)
         else if \<not> mutex_taken v then Inr (TEE_SUCCESS, s1)
         else
           let s2 = s1\<lparr>hw := dev_write D a (v AND NOT SEMCR_MUTEX) (hw s1),
                       wlog := wlog s1 @ [(a, v AND NOT SEMCR_MUTEX)]\<rparr>
           in Inr (if sem_held_by_cid1 D a s2 then TEE_ERROR_ACCESS_DENIED else TEE_SUCCESS, s2))
     \<and> mutex_taken (v0 OR SEMCR_MUTEX) \<and> \<not> mutex_taken (v0 AND NOT SEMCR_MUTEX)
     \<and> (case stm32_risup_cfg D pdata r s of
           Inl f \<Rightarrow> False
         | Inr (res, s') \<Rightarrow>
             (res = TEE_SUCCESS \<or> res = TEE_ERROR_ACCESS_DENIED) \<and>
             (res = TEE_SUCCESS \<longrightarrow>
                (sem_held_by_cid1 D (risup_semcr_addr pdata r) s' \<longleftrightarrow>
                 semaphore_whitelisted (cid_attr r) RIF_CID1 \<and>
                 risup_secured D pdata r (risup_write_attrs D pdata r s))))"
proof -
  have eq: "stm32_risup_cfg D pdata r s =
     (let s1 = risup_write_attrs D pdata r s;
          a = risup_semcr_addr pdata r;
          v = io_read32 D a s1
      in if semaphore_whitelisted (cid_attr r) RIF_CID1 \<and> risup_secured D pdata r s1 then
           let s2 = s1\<lparr>hw := dev_write D a (v OR SEMCR_MUTEX) (hw s1),
                       wlog := wlog s1 @ [(a, v OR SEMCR_MUTEX)]\<rparr>
           in Inr (if sem_held_by_cid1 D a s2 then TEE_SUCCESS else TEE_ERROR_ACCESS_DENIED, s2)
         else if \<not> mutex_taken v then Inr (TEE_SUCCESS, s1)
         else
           let s2 = s1\<lparr>hw := dev_write D a (v AND NOT SEMCR_MUTEX) (hw s1),
                       wlog := wlog s1 @ [(a, v AND NOT SEMCR_MUTEX)]\<rparr>
           in Inr (if sem_held_by_cid1 D a s2 then TEE_ERROR_ACCESS_DENIED else TEE_SUCCESS, s2))"
    using valid cfen semen
    by (simp add: stm32_risup_cfg_def settle_semaphore_eq sem_mode_incorrect_iff Let_def
        io_setbits32_def io_clrbits32_def io_write32_def)
  have bits: "mutex_taken (v0 OR SEMCR_MUTEX) \<and> \<not> mutex_taken (v0 AND NOT SEMCR_MUTEX)"
    by (simp add: mutex_taken_def SEMCR_MUTEX_def BIT_def bit_simps)
  have after: "case stm32_risup_cfg D pdata r s of
           Inl f \<Rightarrow> False
         | Inr (res, s') \<Rightarrow>
             (res = TEE_SUCCESS \<or> res = TEE_ERROR_ACCESS_DENIED) \<and>
             (res = TEE_SUCCESS \<longrightarrow>
                (sem_held_by_cid1 D (risup_semcr_addr pdata r) s' \<longleftrightarrow>
                 semaphore_whitelisted (cid_attr r) RIF_CID1 \<and>
                 risup_secured D pdata r (risup_write_attrs D pdata r s)))"
    using valid cfen semen
    by (auto simp add: stm32_risup_cfg_def settle_semaphore_eq sem_mode_incorrect_iff Let_def
        sem_held_by_cid1_def)
  from eq bits after show ?thesis by blast
qed

theorem risup_cfg_settles_semaphore_witness:
  "unat (risup_id example_risup) < unat (nb_risup (drv_data example_pdata)) \<and>
   cid_filtering_enabled (cid_attr example_risup) \<and>
   semaphore_enabled (cid_attr example_risup) \<and>
   (case stm32_risup_cfg sem_device example_pdata example_risup zero_regs of
      Inl f \<Rightarrow> False
    | Inr (res, s') \<Rightarrow>
        res = TEE_SUCCESS \<and> new_writes zero_regs s' = [(16, 8), (48, 0), (284, 1)] \<and>
        sem_held_by_cid1 sem_device (risup_semcr_addr example_pdata example_risup) s') \<and>
   unat (risup_id unlisted_risup) < unat (nb_risup (drv_data example_pdata)) \<and>
   cid_filtering_enabled (cid_attr unlisted_risup) \<and>
   semaphore_enabled (cid_attr unlisted_risup) \<and>
   \<not> semaphore_whitelisted (cid_attr unlisted_risup) RIF_CID1 \<and>
   sem_held_by_cid1 sem_device (risup_semcr_addr example_pdata unlisted_risup) held_semaphore_3 \<and>
   (case stm32_risup_cfg sem_device example_pdata unlisted_risup held_semaphore_3 of
      Inl f \<Rightarrow> False
    | Inr (res, s') \<Rightarrow>
        res = TEE_SUCCESS \<and> new_writes held_semaphore_3 s' = [(16, 8), (48, 0), (284, 0x10)] \<and>
        \<not> mutex_taken (io_read32 sem_device (risup_semcr_addr example_pdata unlisted_risup) s')) \<and>
   (case stm32_risup_cfg stuck_device example_pdata unlisted_risup held_semaphore_3 of
      Inl f \<Rightarrow> False
    | Inr (res, s') \<Rightarrow>
        res = TEE_ERROR_ACCESS_DENIED \<and>
        new_writes held_semaphore_3 s' = [(16, 8), (48, 0), (284, 0x10)] \<and>
        sem_held_by_cid1 stuck_device (risup_semcr_addr example_pdata unlisted_risup) s')"
proof -
  have h1: "unat (risup_id example_risup) < unat (nb_risup (drv_data example_pdata))"
    and h2: "cid_filtering_enabled (cid_attr example_risup)"
    and h3: "semaphore_enabled (cid_attr example_risup)"
    and g1: "unat (risup_id unlisted_risup) < unat (nb_risup (drv_data example_pdata))"
    and g2: "cid_filtering_enabled (cid_attr unlisted_risup)"
    and g3: "semaphore_enabled (cid_attr unlisted_risup)"
    and g4: "\<not> semaphore_whitelisted (cid_attr unlisted_risup) RIF_CID1"
    and g5: "sem_held_by_cid1 sem_device (risup_semcr_addr example_pdata unlisted_risup) held_semaphore_3"
    by code_simp+
  have e1: "case stm32_risup_cfg sem_device example_pdata example_risup zero_regs of
      Inl f \<Rightarrow> False
    | Inr (res, s') \<Rightarrow>
        res = TEE_SUCCESS \<and> new_writes zero_regs s' = [(16, 8), (48, 0), (284, 1)] \<and>
        sem_held_by_cid1 sem_device (risup_semcr_addr example_pdata example_risup) s'"
    apply (subst risup_cfg_settles_semaphore[OF h1 h2 h3, THEN conjunct1])
    by code_simp
  have e2: "case stm32_risup_cfg sem_device example_pdata unlisted_risup held_semaphore_3 of
      Inl f \<Rightarrow> False
    | Inr (res, s') \<Rightarrow>
        res = TEE_SUCCESS \<and> new_writes held_semaphore_3 s' = [(16, 8), (48, 0), (284, 0x10)] \<and>
        \<not> mutex_taken (io_read32 sem_device (risup_semcr_addr example_pdata unlisted_risup) s')"
    apply (subst risup_cfg_settles_semaphore[OF g1 g2 g3, THEN conjunct1])
    by code_simp
  have e3: "case stm32_risup_cfg stuck_device example_pdata unlisted_risup held_semaphore_3 of
      Inl f \<Rightarrow> False
    | Inr (res, s') \<Rightarrow>
        res = TEE_ERROR_ACCESS_DENIED \<and>
        new_writes held_semaphore_3 s' = [(16, 8), (48, 0), (284, 0x10)] \<and>
        sem_held_by_cid1 stuck_device (risup_semcr_addr example_pdata unlisted_risup) s'"
    apply (subst risup_cfg_settles_semaphore[OF g1 g2 g3, THEN conjunct1])
    by code_simp
  show ?thesis
    using h1 h2 h3 g1 g2 g3 g4 g5 e1 e2 e3 by simp
qed


subsection \<open>\<open>stm32_risup_cfg\<close> outside the TDCID\<close>

lemma wlog_io_write32 [simp]: "wlog (io_write32 D a v s) = wlog s @ [(a, v)]"
  by (simp add: io_write32_def)

lemma wlog_io_setbits32 [simp]: "wlog (io_setbits32 D a m s) = wlog s @ [(a, io_read32 D a s OR m)]"
  by (simp add: io_setbits32_def)

lemma wlog_io_clrbits32 [simp]: "wlog (io_clrbits32 D a m s) = wlog s @ [(a, io_read32 D a s AND NOT m)]"
  by (simp add: io_clrbits32_def)

lemma wlog_io_clrsetbits32 [simp]:
  "wlog (io_clrsetbits32 D a c m s) = wlog s @ [(a, (io_read32 D a s AND NOT c) OR m)]"
  by (simp add: io_clrsetbits32_def)

lemma new_writes_append: "wlog s' = wlog s @ ws \<Longrightarrow> new_writes s s' = ws"
  by (simp add: new_writes_def)

lemma settle_semaphore_log:
  assumes "risup_settle_semaphore D pdata r s = Inr (res, s')"
  shows "\<exists>ws. wlog s' = wlog s @ ws \<and> (\<forall>(a, v) \<in> set ws. a = risup_semcr_addr pdata r)"
  using assms
  by (auto simp add: settle_semaphore_eq Let_def split: if_splits)

lemma settle_semaphore_total: "\<exists>res s'. risup_settle_semaphore D pdata r s = Inr (res, s')"
  by (simp add: settle_semaphore_eq Let_def)

lemma write_attrs_log_non_tdcid:
  assumes "\<not> is_tdcid pdata"
  shows "wlog (risup_write_attrs D pdata r s) =
           wlog s @ sec_writes D pdata r s @ priv_writes D pdata r (after_sec_write D pdata r s)"
  using assms
  by (simp add: risup_write_attrs_def sec_writes_def priv_writes_def after_sec_write_def Let_def
      risup_seccfgr_addr_def risup_privcfgr_addr_def)

lemma risup_addrs_unprotected:
  assumes "unat (risup_id r) < 256"
  shows "\<not> is_cidcfgr_addr pdata (risup_seccfgr_addr pdata r)"
    "\<not> is_rcfglockr_addr pdata (risup_seccfgr_addr pdata r)"
    "\<not> is_cidcfgr_addr pdata (risup_privcfgr_addr pdata r)"
    "\<not> is_rcfglockr_addr pdata (risup_privcfgr_addr pdata r)"
    "\<not> is_cidcfgr_addr pdata (risup_semcr_addr pdata r)"
    "\<not> is_rcfglockr_addr pdata (risup_semcr_addr pdata r)"
proof -
  have d: "unat (risup_id r) div 32 < 8" using assms by simp
  show "\<not> is_cidcfgr_addr pdata (risup_seccfgr_addr pdata r)"
    "\<not> is_rcfglockr_addr pdata (risup_seccfgr_addr pdata r)"
    "\<not> is_cidcfgr_addr pdata (risup_privcfgr_addr pdata r)"
    "\<not> is_rcfglockr_addr pdata (risup_privcfgr_addr pdata r)"
    "\<not> is_rcfglockr_addr pdata (risup_semcr_addr pdata r)"
    using d
    by (simp_all add: is_cidcfgr_addr_def is_rcfglockr_addr_def risup_seccfgr_addr_def
        risup_privcfgr_addr_def risup_semcr_addr_def risup_offset_def risup_cidcfgr_offset_def
        RIFSC_RISC_SECCFGR0_def RIFSC_RISC_PRIVCFGR0_def RIFSC_RISC_RCFGLOCKR0_def
        RIFSC_RISC_PER0_CIDCFGR_def RIFSC_RISC_PER0_SEMCR_def PERIPH_IDS_PER_REG_def
        OFFSET_PERX_CIDCFGR_def)
  have "(base pdata + 260 + 8 * unat (risup_id r) - (base pdata + 256)) = 4 + 8 * unat (risup_id r)"
    by simp
  then show "\<not> is_cidcfgr_addr pdata (risup_semcr_addr pdata r)"
    by (simp add: is_cidcfgr_addr_def risup_semcr_addr_def risup_cidcfgr_offset_def
        RIFSC_RISC_PER0_CIDCFGR_def RIFSC_RISC_PER0_SEMCR_def OFFSET_PERX_CIDCFGR_def)
qed

lemma nb_risup_small: "unat (n :: u8) \<le> 255"
  using unsigned_less[of n, where 'a = nat] by simp


text \<open>
  Claim C3. When \<open>is_tdcid\<close> is false, \<open>stm32_risup_cfg\<close> writes no CIDCFGR register and no
  RCFGLOCKR register, whatever the resource and the device. The call is the same as the
  call made by the TDCID with the CID-filtering write and the lock left out: for a valid
  index the security and privilege bits are written first (when the hardware has them),
  with the values the TDCID would write, and the semaphore step follows.
\<close>

theorem risup_cfg_non_tdcid:
  assumes ntd: "\<not> is_tdcid pdata"
  shows "(case stm32_risup_cfg D pdata r s of
            Inl f \<Rightarrow> False
          | Inr (res, s') \<Rightarrow>
              take (length (wlog s)) (wlog s') = wlog s \<and>
              (\<forall>(a, v) \<in> set (new_writes s s').
                 \<not> is_cidcfgr_addr pdata a \<and> \<not> is_rcfglockr_addr pdata a)) \<and>
         stm32_risup_cfg D pdata r s =
           stm32_risup_cfg D
             (pdata\<lparr>is_tdcid := True, drv_data := (drv_data pdata)\<lparr>rif_en := False\<rparr>\<rparr>)
             (r\<lparr>lock := False\<rparr>) s \<and>
         (unat (risup_id r) < unat (nb_risup (drv_data pdata)) \<longrightarrow>
            stm32_risup_cfg D pdata r s =
              risup_settle_semaphore D pdata r (risup_write_attrs D pdata r s) \<and>
            new_writes s (risup_write_attrs D pdata r s) =
              sec_writes D pdata r s @ priv_writes D pdata r (after_sec_write D pdata r s))"
proof (intro conjI)
  show "case stm32_risup_cfg D pdata r s of
            Inl f \<Rightarrow> False
          | Inr (res, s') \<Rightarrow>
              take (length (wlog s)) (wlog s') = wlog s \<and>
              (\<forall>(a, v) \<in> set (new_writes s s').
                 \<not> is_cidcfgr_addr pdata a \<and> \<not> is_rcfglockr_addr pdata a)"
  proof (cases "unat (risup_id r) < unat (nb_risup (drv_data pdata))")
    case False
    then show ?thesis by (simp add: stm32_risup_cfg_def new_writes_def)
  next
    case True
    then have small: "unat (risup_id r) < 256"
      using nb_risup_small[of "nb_risup (drv_data pdata)"] by simp
    obtain res s' where st: "risup_settle_semaphore D pdata r (risup_write_attrs D pdata r s) = Inr (res, s')"
      using settle_semaphore_total by blast
    from settle_semaphore_log[OF st] obtain ws where
      ws: "wlog s' = wlog (risup_write_attrs D pdata r s) @ ws"
      and wsa: "\<forall>(a, v) \<in> set ws. a = risup_semcr_addr pdata r" by blast
    let ?pre = "sec_writes D pdata r s @ priv_writes D pdata r (after_sec_write D pdata r s)"
    have full: "wlog s' = wlog s @ ?pre @ ws"
      using ws write_attrs_log_non_tdcid[OF ntd, of D r s] by simp
    then have nw: "new_writes s s' = ?pre @ ws" by (simp add: new_writes_def)
    have pre_ok: "\<forall>(a, v) \<in> set ?pre. \<not> is_cidcfgr_addr pdata a \<and> \<not> is_rcfglockr_addr pdata a"
      using risup_addrs_unprotected[OF small, of pdata]
      by (auto simp add: sec_writes_def priv_writes_def)
    have ws_ok: "\<forall>(a, v) \<in> set ws. \<not> is_cidcfgr_addr pdata a \<and> \<not> is_rcfglockr_addr pdata a"
      using wsa risup_addrs_unprotected[OF small, of pdata] by auto
    show ?thesis
      using True st full nw pre_ok ws_ok
      by (auto simp add: stm32_risup_cfg_def)
  qed
next
  show "stm32_risup_cfg D pdata r s =
           stm32_risup_cfg D
             (pdata\<lparr>is_tdcid := True, drv_data := (drv_data pdata)\<lparr>rif_en := False\<rparr>\<rparr>)
             (r\<lparr>lock := False\<rparr>) s"
    using ntd
    by (simp add: stm32_risup_cfg_def risup_write_attrs_def risup_settle_semaphore_def Let_def
        risup_offset_def risup_shift_def risup_cidcfgr_offset_def)
next
  show "unat (risup_id r) < unat (nb_risup (drv_data pdata)) \<longrightarrow>
            stm32_risup_cfg D pdata r s =
              risup_settle_semaphore D pdata r (risup_write_attrs D pdata r s) \<and>
            new_writes s (risup_write_attrs D pdata r s) =
              sec_writes D pdata r s @ priv_writes D pdata r (after_sec_write D pdata r s)"
    using write_attrs_log_non_tdcid[OF ntd, of D r s]
    by (simp add: stm32_risup_cfg_def new_writes_def)
qed
theorem risup_cfg_non_tdcid_witness:
  "\<not> is_tdcid example_pdata \<and>
   (case stm32_risup_cfg sem_device example_pdata example_risup zero_regs of
      Inl f \<Rightarrow> False
    | Inr (res, s') \<Rightarrow>
        new_writes zero_regs s' = [(16, 8), (48, 0), (284, 1)] \<and>
        (\<forall>(a, v) \<in> set (new_writes zero_regs s').
           \<not> is_cidcfgr_addr example_pdata a \<and> \<not> is_rcfglockr_addr example_pdata a))"
proof -
  have h: "\<not> is_tdcid example_pdata" by code_simp
  have e: "case stm32_risup_cfg sem_device example_pdata example_risup zero_regs of
      Inl f \<Rightarrow> False
    | Inr (res, s') \<Rightarrow> new_writes zero_regs s' = [(16, 8), (48, 0), (284, 1)]"
    by code_simp
  show ?thesis
    using risup_cfg_non_tdcid[OF h, where D = sem_device and r = example_risup and s = zero_regs] h e
    by (auto split: sum.splits prod.splits)
qed


subsection \<open>The access rule of the ETZPC\<close>

lemma bindf_simps [simp]: "bindf (Inl e) f = Inl e" "bindf (Inr x) f = f x"
  by (simp_all add: bindf_def)

lemma get_decprot_valid:
  "ident < num_per_sec (ddata dev) \<Longrightarrow>
   etzpc_do_get_decprot D dev ident s = Inr (current_decprot D dev ident s)"
  by (simp add: etzpc_do_get_decprot_def valid_decprot_id_def current_decprot_def)


text \<open>
  Claim C9. For a query with one argument whose identifier is a valid peripheral and whose
  mode is a DECPROT attribute, \<open>stm32_etzpc_check_access\<close> succeeds exactly when the current
  attribute equals the requested one, or the current attribute is not MCU-isolated and the
  request is Secure-RW or NonSecure-Read/Secure-Write, or the current attribute is neither
  MCU-isolated nor Secure-RW and the request is NonSecure-RW or NonSecure-Read/Secure-Write;
  otherwise it returns \<open>TEE_ERROR_ACCESS_DENIED\<close>. In particular an MCU-isolated peripheral
  denies NonSecure-RW and Secure-RW requests.
\<close>

theorem etzpc_check_access_rule:
  assumes cnt: "arg_count fw = 1" and a0: "args fw = a0 # rest"
      and valid: "a0 AND ETZPC_ID_MASK B < num_per_sec (ddata dev)"
      and req: "etzpc_binding2decprot B (drop_bit (ETZPC_MODE_SHIFT B) (a0 AND ETZPC_MODE_MASK B))
                  = Inr attr_req"
      and cur: "cur = current_decprot D dev (a0 AND ETZPC_ID_MASK B) s"
  shows "stm32_etzpc_check_access B D dev fw s =
           Inr (if cur = attr_req \<or>
                   (cur \<noteq> ETZPC_DECPROT_MCU_ISOLATION \<and>
                    (attr_req = ETZPC_DECPROT_S_RW \<or> attr_req = ETZPC_DECPROT_NS_R_S_W)) \<or>
                   (cur \<noteq> ETZPC_DECPROT_MCU_ISOLATION \<and> cur \<noteq> ETZPC_DECPROT_S_RW \<and>
                    (attr_req = ETZPC_DECPROT_NS_RW \<or> attr_req = ETZPC_DECPROT_NS_R_S_W))
                then TEE_SUCCESS else TEE_ERROR_ACCESS_DENIED) \<and>
         (cur = ETZPC_DECPROT_MCU_ISOLATION \<and>
          (attr_req = ETZPC_DECPROT_NS_RW \<or> attr_req = ETZPC_DECPROT_S_RW) \<longrightarrow>
          stm32_etzpc_check_access B D dev fw s = Inr TEE_ERROR_ACCESS_DENIED)"
  using cnt a0 valid req cur
  by (auto simp add: stm32_etzpc_check_access_def Let_def get_decprot_valid)

theorem etzpc_check_access_rule_witness:
  "arg_count \<lparr>arg_count = 1, args = [0x305]\<rparr> = 1 \<and>
   0x305 AND ETZPC_ID_MASK example_etzpc_bindings < num_per_sec (ddata example_etzpc) \<and>
   current_decprot ram_device example_etzpc 5 mcu_isolated_5 = ETZPC_DECPROT_MCU_ISOLATION \<and>
   stm32_etzpc_check_access example_etzpc_bindings ram_device example_etzpc
     \<lparr>arg_count = 1, args = [0x305]\<rparr> mcu_isolated_5 = Inr TEE_ERROR_ACCESS_DENIED \<and>
   stm32_etzpc_check_access example_etzpc_bindings ram_device example_etzpc
     \<lparr>arg_count = 1, args = [0x005]\<rparr> mcu_isolated_5 = Inr TEE_ERROR_ACCESS_DENIED \<and>
   stm32_etzpc_check_access example_etzpc_bindings ram_device example_etzpc
     \<lparr>arg_count = 1, args = [0x005]\<rparr> zero_regs = Inr TEE_SUCCESS"
proof -
  have h1: "arg_count \<lparr>arg_count = 1, args = [0x305 :: u32]\<rparr> = 1" by simp
  have h2: "args \<lparr>arg_count = 1, args = [0x305 :: u32]\<rparr> = 0x305 # []" by simp
  have h3: "0x305 AND ETZPC_ID_MASK example_etzpc_bindings < num_per_sec (ddata example_etzpc)"
    by code_simp
  have h4: "etzpc_binding2decprot example_etzpc_bindings
      (drop_bit (ETZPC_MODE_SHIFT example_etzpc_bindings) (0x305 AND ETZPC_MODE_MASK example_etzpc_bindings))
      = Inr ETZPC_DECPROT_NS_RW" by code_simp
  have h5: "ETZPC_DECPROT_MCU_ISOLATION =
      current_decprot ram_device example_etzpc (0x305 AND ETZPC_ID_MASK example_etzpc_bindings) mcu_isolated_5"
    by code_simp
  have e: "current_decprot ram_device example_etzpc 5 mcu_isolated_5 = ETZPC_DECPROT_MCU_ISOLATION"
    "stm32_etzpc_check_access example_etzpc_bindings ram_device example_etzpc
     \<lparr>arg_count = 1, args = [0x005]\<rparr> mcu_isolated_5 = Inr TEE_ERROR_ACCESS_DENIED"
    "stm32_etzpc_check_access example_etzpc_bindings ram_device example_etzpc
     \<lparr>arg_count = 1, args = [0x005]\<rparr> zero_regs = Inr TEE_SUCCESS"
    by code_simp+
  show ?thesis
    using etzpc_check_access_rule[OF h1 h2 h3 h4 h5] h1 h3 e by simp
qed


subsection \<open>RISAF access with no compartment enabled\<close>

text \<open>
  Claim C10. For a valid region identifier whose region is enabled (or the caller is the
  TDCID) and secure, when the region's CIDCFGR register is zero
  \<open>stm32_risaf_acquire_access\<close> returns success for every combination of the read and write
  flags: the test of the read and write permissions of compartment 1 is skipped.
\<close>

theorem risaf_acquire_access_empty_cidcfgr:
  assumes cnt: "arg_count fw = 1" and a0: "args fw = a0 # rest"
      and nz: "RISAF_GET_REGION_ID B a0 \<noteq> 0"
      and inr: "RISAF_GET_REGION_ID B a0 < nregions (risaf_pdata risaf)"
      and clk: "clk_res = TEE_SUCCESS"
      and en: "io_read32 D (risaf_base (risaf_pdata risaf) + RISAF_REG_CFGR (RISAF_GET_REGION_ID B a0)) s
                 AND RISAF_REG_CFGR_BREN \<noteq> 0 \<or> tdcid"
      and secure: "io_read32 D (risaf_base (risaf_pdata risaf) + RISAF_REG_CFGR (RISAF_GET_REGION_ID B a0)) s
                 AND RISAF_REG_CFGR_SEC \<noteq> 0"
      and empty: "io_read32 D (risaf_base (risaf_pdata risaf) + RISAF_REG_CIDCFGR (RISAF_GET_REGION_ID B a0)) s = 0"
  shows "stm32_risaf_acquire_access B D risaf tdcid clk_res fw rd wr s = Inr TEE_SUCCESS"
  using assms
  by (auto simp add: stm32_risaf_acquire_access_def Let_def)

theorem risaf_acquire_access_empty_cidcfgr_witness:
  "stm32_risaf_acquire_access example_risaf_bindings ram_device example_risaf False TEE_SUCCESS
     \<lparr>arg_count = 1, args = [2]\<rparr> True True secure_region_2 = Inr TEE_SUCCESS \<and>
   io_read32 ram_device (RISAF_REG_CIDCFGR 2) secure_region_2 = 0"
proof -
  let ?fw = "\<lparr>arg_count = 1, args = [2 :: u32]\<rparr>"
  have h1: "arg_count ?fw = 1" and h2: "args ?fw = 2 # []" by simp_all
  have h3: "RISAF_GET_REGION_ID example_risaf_bindings 2 \<noteq> 0"
    and h4: "RISAF_GET_REGION_ID example_risaf_bindings 2 < nregions (risaf_pdata example_risaf)"
    and h6: "io_read32 ram_device (risaf_base (risaf_pdata example_risaf) +
               RISAF_REG_CFGR (RISAF_GET_REGION_ID example_risaf_bindings 2)) secure_region_2
             AND RISAF_REG_CFGR_BREN \<noteq> 0 \<or> False"
    and h7: "io_read32 ram_device (risaf_base (risaf_pdata example_risaf) +
               RISAF_REG_CFGR (RISAF_GET_REGION_ID example_risaf_bindings 2)) secure_region_2
             AND RISAF_REG_CFGR_SEC \<noteq> 0"
    and h8: "io_read32 ram_device (risaf_base (risaf_pdata example_risaf) +
               RISAF_REG_CIDCFGR (RISAF_GET_REGION_ID example_risaf_bindings 2)) secure_region_2 = 0"
    and e: "io_read32 ram_device (RISAF_REG_CIDCFGR 2) secure_region_2 = 0"
    by code_simp+
  show ?thesis
    using risaf_acquire_access_empty_cidcfgr[OF h1 h2 h3 h4 refl h6 h7 h8, of True True] e by simp
qed


subsection \<open>Overlapping RISAF regions\<close>

lemma intersect_sym: "core_is_buffer_intersect b bl a al = core_is_buffer_intersect a al b bl"
  by (simp add: core_is_buffer_intersect_def max.commute min.commute)

lemma intersect_iff_ranges:
  "core_is_buffer_intersect b bl a al \<longleftrightarrow>
     {unat b ..< unat b + unat bl} \<inter> {unat a ..< unat a + unat al} \<noteq> {}"
  by (auto simp add: core_is_buffer_intersect_def)

lemma check_overlap_from_hit:
  assumes "i0 \<le> i" and "i < index" and "cfg (region ! i) \<noteq> 0"
      and "core_is_buffer_intersect (addr (region ! index)) (len (region ! index))
             (addr (region ! i)) (len (region ! i))"
  shows "risaf_check_overlap_from region index i0 = TEE_ERROR_GENERIC"
  using assms
proof (induction region index i0 rule: risaf_check_overlap_from.induct)
  case (1 region index i0)
  show ?case
  proof (cases "i0 = i")
    case True
    with 1 show ?thesis by simp
  next
    case False
    with 1 have "Suc i0 \<le> i" "i0 < index" by simp_all
    with 1 show ?thesis by (subst risaf_check_overlap_from.simps) simp
  qed
qed

lemma check_overlap_hit:
  assumes "index < length region" and "i < index" and "cfg (region ! i) \<noteq> 0"
      and "core_is_buffer_intersect (addr (region ! index)) (len (region ! index))
             (addr (region ! i)) (len (region ! i))"
  shows "risaf_check_overlap region index = Inr TEE_ERROR_GENERIC"
  using assms check_overlap_from_hit[of 0 i index region]
  by (simp add: risaf_check_overlap_def)

lemma probe_region_frame:
  assumes "risaf_probe_region B D risaf k e rs s = Inr (rs', s')"
  shows "length rs' = length rs"
    and "\<forall>m. m \<noteq> k \<longrightarrow> rs' ! m = rs ! m"
    and "dt_region_registered B e \<longrightarrow> rs' ! k = dt_region e"
  using assms
  by (auto simp add: risaf_probe_region_def Let_def bindf_def dt_region_registered_def dt_region_def
      split: if_splits option.splits sum.splits prod.splits)

lemma probe_region_overlap:
  assumes k: "k < length rs" and ik: "i < k" and c: "cfg (rs ! i) \<noteq> 0"
      and reg: "dt_region_registered B e"
      and x: "core_is_buffer_intersect (reg_base e) (reg_size e) (addr (rs ! i)) (len (rs ! i))"
  shows "isl (risaf_probe_region B D risaf k e rs s)"
proof -
  obtain p where p: "protreg e = Some p" using reg
    by (auto simp add: dt_region_registered_def split: option.splits)
  let ?rs2 = "rs[k := (rs ! k)\<lparr>addr := reg_base e, len := reg_size e, cfg := p\<rparr>]"
  have ov: "risaf_check_overlap ?rs2 k = Inr TEE_ERROR_GENERIC"
    using k ik c x by (intro check_overlap_hit[where i = i]) simp_all
  show ?thesis
    using reg p k ov
    by (auto simp add: risaf_probe_region_def Let_def bindf_def dt_region_registered_def
        split: sum.splits)
qed

lemma probe_from_overlap:
  assumes "length rs = length pre + length es"
      and "\<forall>m < length pre. dt_region_registered B (pre ! m) \<longrightarrow> rs ! m = dt_region (pre ! m)"
      and "i < j" and "j < length pre + length es" and "length pre \<le> j"
      and "dt_region_registered B ((pre @ es) ! i)"
      and "dt_region_registered B ((pre @ es) ! j)"
      and "core_is_buffer_intersect (reg_base ((pre @ es) ! j)) (reg_size ((pre @ es) ! j))
             (reg_base ((pre @ es) ! i)) (reg_size ((pre @ es) ! i))"
  shows "isl (risaf_probe_regions_from B D risaf (length pre) es rs s)"
  using assms
proof (induction es arbitrary: pre rs s)
  case Nil
  then show ?case by simp
next
  case (Cons e es)
  show ?case
  proof (cases "length pre = j")
    case True
    have ej: "(pre @ e # es) ! j = e" using True[symmetric] by simp
    have ip: "i < length pre" using True Cons.prems(3) by simp
    then have ei: "(pre @ e # es) ! i = pre ! i" by (simp add: nth_append)
    have ri: "rs ! i = dt_region (pre ! i)" using Cons.prems(2,6) ip ei by simp
    have c: "cfg (rs ! i) \<noteq> 0"
      using Cons.prems(6) ei ri
      by (auto simp add: dt_region_registered_def dt_region_def split: option.splits)
    have "isl (risaf_probe_region B D risaf (length pre) e rs s)"
    proof (rule probe_region_overlap[where i = i])
      show "length pre < length rs" using Cons.prems(1) by simp
      show "i < length pre" by (rule ip)
      show "cfg (rs ! i) \<noteq> 0" by (rule c)
      show "dt_region_registered B e" using Cons.prems(7) ej by simp
      show "core_is_buffer_intersect (reg_base e) (reg_size e) (addr (rs ! i)) (len (rs ! i))"
        using Cons.prems(8) ej ei ri by (simp add: dt_region_def)
    qed
    then show ?thesis by (auto split: sum.splits)
  next
    case False
    then have lt: "length pre < j" using Cons.prems(5) by simp
    show ?thesis
    proof (cases "risaf_probe_region B D risaf (length pre) e rs s")
      case (Inl f)
      then show ?thesis by simp
    next
      case (Inr out)
      obtain rs' s' where out: "out = (rs', s')" by (cases out)
      note fr = probe_region_frame[OF Inr[unfolded out]]
      have app: "(pre @ [e]) @ es = pre @ e # es" by simp
      have "isl (risaf_probe_regions_from B D risaf (length (pre @ [e])) es rs' s')"
      proof (rule Cons.IH)
        show "length rs' = length (pre @ [e]) + length es"
          using fr(1) Cons.prems(1) by simp
        show "\<forall>m<length (pre @ [e]). dt_region_registered B ((pre @ [e]) ! m) \<longrightarrow>
                rs' ! m = dt_region ((pre @ [e]) ! m)"
        proof (intro allI impI)
          fix m assume m: "m < length (pre @ [e])" and r: "dt_region_registered B ((pre @ [e]) ! m)"
          show "rs' ! m = dt_region ((pre @ [e]) ! m)"
          proof (cases "m = length pre")
            case True
            then show ?thesis using fr(3) r by simp
          next
            case False
            then have "m < length pre" using m by simp
            then show ?thesis using fr(2) Cons.prems(2) r False by (simp add: nth_append)
          qed
        qed
        show "i < j" by (rule Cons.prems(3))
        show "j < length (pre @ [e]) + length es" using Cons.prems(4) by simp
        show "length (pre @ [e]) \<le> j" using lt by simp
        show "dt_region_registered B (((pre @ [e]) @ es) ! i)" using Cons.prems(6) by (simp only: app)
        show "dt_region_registered B (((pre @ [e]) @ es) ! j)" using Cons.prems(7) by (simp only: app)
        show "core_is_buffer_intersect (reg_base (((pre @ [e]) @ es) ! j)) (reg_size (((pre @ [e]) @ es) ! j))
             (reg_base (((pre @ [e]) @ es) ! i)) (reg_size (((pre @ [e]) @ es) ! i))"
          using Cons.prems(8) by (simp only: app)
      qed
      then show ?thesis using Inr out by simp
    qed
  qed
qed

lemma probe_overlap_ordered:
  assumes "i < j" and "j < length es"
      and "dt_region_registered B (es ! i)" and "dt_region_registered B (es ! j)"
      and "dt_address_range (es ! i) \<inter> dt_address_range (es ! j) \<noteq> {}"
  shows "isl (risaf_probe_regions B D risaf es s)"
proof -
  have x: "core_is_buffer_intersect (reg_base (es ! j)) (reg_size (es ! j))
             (reg_base (es ! i)) (reg_size (es ! i))"
    using assms(5) by (simp add: intersect_iff_ranges dt_address_range_def Int_commute)
  show ?thesis
    unfolding risaf_probe_regions_def
    using probe_from_overlap[where pre = "[]" and es = es and i = i and j = j and B = B
        and rs = "replicate (length es) \<lparr>cfg = 0, addr = 0, len = 0\<rparr>" and D = D
        and risaf = risaf and s = s] assms(1-4) x
    by simp
qed

text \<open>
  Claim C5. Take two regions of one RISAF instance that the probe registers (both carry a
  non-zero configuration) and whose address ranges \<open>[base, base + length)\<close> have an address
  in common. Whatever their positions in the \<open>memory-region\<close> list, the probe does not
  complete: it ends in \<open>panic()\<close>, or earlier in a failed assertion. In particular, once both
  entries are in the region array, \<open>risaf_check_overlap\<close> called for the later one returns
  its overlap error \<open>TEE_ERROR_GENERIC\<close>, whichever of the two comes first.
\<close>

theorem risaf_probe_rejects_overlap:
  assumes i: "i < length es" and j: "j < length es" and ne: "i \<noteq> j"
      and ri: "dt_region_registered B (es ! i)" and rj: "dt_region_registered B (es ! j)"
      and x: "dt_address_range (es ! i) \<inter> dt_address_range (es ! j) \<noteq> {}"
  shows "isl (risaf_probe_regions B D risaf es s) \<and>
         (\<forall>rs. max i j < length rs \<and> rs ! i = dt_region (es ! i) \<and> rs ! j = dt_region (es ! j) \<longrightarrow>
               risaf_check_overlap rs (max i j) = Inr TEE_ERROR_GENERIC)"
proof (cases "i < j")
  case True
  have c: "cfg (dt_region (es ! i)) \<noteq> 0"
    using ri by (auto simp add: dt_region_registered_def dt_region_def split: option.splits)
  have xx: "core_is_buffer_intersect (reg_base (es ! j)) (reg_size (es ! j))
              (reg_base (es ! i)) (reg_size (es ! i))"
    using x by (simp add: intersect_iff_ranges dt_address_range_def Int_commute)
  have "\<forall>rs. max i j < length rs \<and> rs ! i = dt_region (es ! i) \<and> rs ! j = dt_region (es ! j) \<longrightarrow>
               risaf_check_overlap rs (max i j) = Inr TEE_ERROR_GENERIC"
  proof (intro allI impI)
    fix rs assume a: "max i j < length rs \<and> rs ! i = dt_region (es ! i) \<and> rs ! j = dt_region (es ! j)"
    have m: "max i j = j" using True by simp
    show "risaf_check_overlap rs (max i j) = Inr TEE_ERROR_GENERIC"
      unfolding m
      using a True c xx m
      by (intro check_overlap_hit[where i = i]) (simp_all add: dt_region_def)
  qed
  then show ?thesis
    using probe_overlap_ordered[OF True j ri rj x] by simp
next
  case False
  then have lt: "j < i" using ne by simp
  have c: "cfg (dt_region (es ! j)) \<noteq> 0"
    using rj by (auto simp add: dt_region_registered_def dt_region_def split: option.splits)
  have x': "dt_address_range (es ! j) \<inter> dt_address_range (es ! i) \<noteq> {}"
    using x by (simp add: Int_commute)
  have xx: "core_is_buffer_intersect (reg_base (es ! i)) (reg_size (es ! i))
              (reg_base (es ! j)) (reg_size (es ! j))"
    using x' by (simp add: intersect_iff_ranges dt_address_range_def Int_commute)
  have "\<forall>rs. max i j < length rs \<and> rs ! i = dt_region (es ! i) \<and> rs ! j = dt_region (es ! j) \<longrightarrow>
               risaf_check_overlap rs (max i j) = Inr TEE_ERROR_GENERIC"
  proof (intro allI impI)
    fix rs assume a: "max i j < length rs \<and> rs ! i = dt_region (es ! i) \<and> rs ! j = dt_region (es ! j)"
    have m: "max i j = i" using lt by simp
    show "risaf_check_overlap rs (max i j) = Inr TEE_ERROR_GENERIC"
      unfolding m
      using a lt c xx m
      by (intro check_overlap_hit[where i = j]) (simp_all add: dt_region_def)
  qed
  then show ?thesis
    using probe_overlap_ordered[OF lt i rj ri x'] by simp
qed

theorem risaf_probe_rejects_overlap_witness:
  "dt_region_registered example_risaf_bindings region_a \<and>
   dt_region_registered example_risaf_bindings region_b \<and>
   dt_address_range region_a \<inter> dt_address_range region_b \<noteq> {} \<and>
   isl (risaf_probe_regions example_risaf_bindings ram_device example_risaf [region_a, region_b] zero_regs) \<and>
   isl (risaf_probe_regions example_risaf_bindings ram_device example_risaf [region_b, region_a] zero_regs) \<and>
   \<not> isl (risaf_probe_regions example_risaf_bindings ram_device example_risaf [region_a] zero_regs) \<and>
   \<not> isl (risaf_probe_regions example_risaf_bindings ram_device example_risaf [region_b] zero_regs)"
proof -
  have ra: "dt_region_registered example_risaf_bindings region_a"
    and rb: "dt_region_registered example_risaf_bindings region_b"
    by code_simp+
  have x: "dt_address_range region_a \<inter> dt_address_range region_b \<noteq> {}"
    by (simp add: dt_address_range_def region_a_def region_b_def)
  have x': "dt_address_range region_b \<inter> dt_address_range region_a \<noteq> {}"
    by (simp add: dt_address_range_def region_a_def region_b_def)
  have single: "\<not> isl (risaf_probe_regions example_risaf_bindings ram_device example_risaf [region_a] zero_regs)"
    "\<not> isl (risaf_probe_regions example_risaf_bindings ram_device example_risaf [region_b] zero_regs)"
    by code_simp+
  have ab: "isl (risaf_probe_regions example_risaf_bindings ram_device example_risaf [region_a, region_b] zero_regs)"
    using risaf_probe_rejects_overlap[where es = "[region_a, region_b]" and i = 0 and j = 1
        and B = example_risaf_bindings and D = ram_device and risaf = example_risaf and s = zero_regs]
      ra rb x by simp
  have ba: "isl (risaf_probe_regions example_risaf_bindings ram_device example_risaf [region_b, region_a] zero_regs)"
    using risaf_probe_rejects_overlap[where es = "[region_b, region_a]" and i = 0 and j = 1
        and B = example_risaf_bindings and D = ram_device and risaf = example_risaf and s = zero_regs]
      ra rb x' by simp
  show ?thesis using ra rb x ab ba single by simp
qed


subsection \<open>The boundary check of a RISAF region\<close>

text \<open>
  For a region and a memory window that do not wrap around the 64-bit address space, the
  check is exact: it returns \<open>TEE_ERROR_BAD_PARAMETERS\<close> when the region starts below the
  memory base, ends beyond the memory end, or has a start or length that is not a multiple of
  the granularity (a granularity of zero included), and \<open>TEE_SUCCESS\<close> otherwise.
\<close>

lemma unat_ucast_32_64: "unat (ucast (g :: u32) :: u64) = unat g"
proof -
  have "unat g < 2 ^ 32" using unsigned_less[of g, where 'a = nat] by simp
  then have "unat g < 2 ^ 64" by simp
  then show ?thesis by (simp add: unsigned_ucast_eq take_bit_nat_eq_self)
qed

lemma word_mod_zero_iff: "(a mod ucast g \<noteq> 0) \<longleftrightarrow> \<not> unat g dvd unat a" for a :: u64 and g :: u32
proof -
  have "unat (a mod ucast g) = unat a mod unat g"
    by (simp add: unat_mod unat_ucast_32_64)
  then show ?thesis
    by (metis dvd_eq_mod_eq_0 unat_eq_zero unat_0)
qed

lemma last_address:
  fixes a l :: u64
  assumes "l \<noteq> 0" and "unat a + unat l \<le> 2 ^ 64"
  shows "unat (a - 1 + l) = unat a + unat l - 1"
proof -
  have l1: "unat (l - 1) = unat l - 1" using assms(1) by (simp add: unat_minus_one)
  have pos: "0 < unat l" using assms(1) by (simp add: unat_gt_0)
  have eq: "a - 1 + l = a + (l - 1)" by simp
  have "unat (a + (l - 1)) = unat a + unat (l - 1)"
    using assms(2) l1 pos by (intro unat_add_lem[THEN iffD1]) simp
  then have "unat (a + (l - 1)) = unat a + unat l - 1" using l1 pos by simp
  then show ?thesis by (simp only: eq)
qed

lemma boundaries_exact_without_wrap:
  assumes len: "len region \<noteq> 0"
      and rw: "unat (addr region) + unat (len region) \<le> 2 ^ 64"
      and ms: "mem_size (risaf_pdata risaf) \<noteq> 0"
      and mw: "unat (mem_base (risaf_pdata risaf)) + unat (mem_size (risaf_pdata risaf)) \<le> 2 ^ 64"
  shows "risaf_check_region_boundaries risaf region =
           Inr (if unat (addr region) < unat (mem_base (risaf_pdata risaf)) \<or>
                   unat (mem_base (risaf_pdata risaf)) + unat (mem_size (risaf_pdata risaf))
                     < unat (addr region) + unat (len region) \<or>
                   granularity (risaf_ddata risaf) = 0 \<or>
                   \<not> unat (granularity (risaf_ddata risaf)) dvd unat (addr region) \<or>
                   \<not> unat (granularity (risaf_ddata risaf)) dvd unat (len region)
                then TEE_ERROR_BAD_PARAMETERS else TEE_SUCCESS)"
proof -
  let ?mb = "mem_base (risaf_pdata risaf)" and ?sz = "mem_size (risaf_pdata risaf)"
  have e1: "unat (?mb + (?sz - 1)) = unat ?mb + unat ?sz - 1"
  proof -
    have "?mb - 1 + ?sz = ?mb + (?sz - 1)" by simp
    then show ?thesis using last_address[OF ms mw] by (simp only:)
  qed
  have e2: "unat (addr region - 1 + len region) = unat (addr region) + unat (len region) - 1"
    using last_address[OF len rw] .
  have p1: "0 < unat (len region)" using len by (simp add: unat_gt_0)
  have p2: "0 < unat ?sz" using ms by (simp add: unat_gt_0)
  show ?thesis
    using p1 p2
    by (auto simp add: risaf_check_region_boundaries_def Let_def len word_less_nat_alt e1 e2
        word_mod_zero_iff)
qed

text \<open>
  Claim C8 at a region whose last address wraps. The region starts at \<open>0x80001000\<close> inside
  the memory \<open>[0x80000000, 0x180000000)\<close> and has the non-zero length \<open>0xFFFFFFFFFFFFF000\<close>,
  so it ends far beyond the end of the memory; start and length are multiples of the
  granularity \<open>0x1000\<close>. The sum \<open>addr - 1 + len\<close> wraps to \<open>0x7FFFFFFF\<close>, which is inside the
  memory, and \<open>risaf_check_region_boundaries\<close> returns \<open>TEE_SUCCESS\<close>.
\<close>

theorem boundaries_wrapping_region_accepted:
  "len \<lparr>cfg = 0x31, addr = 0x80001000, len = 0xFFFFFFFFFFFFF000\<rparr> \<noteq> 0 \<and>
   unat (mem_base (risaf_pdata example_risaf)) + unat (mem_size (risaf_pdata example_risaf))
     < unat (0x80001000 :: u64) + unat (0xFFFFFFFFFFFFF000 :: u64) \<and>
   risaf_check_region_boundaries example_risaf
     \<lparr>cfg = 0x31, addr = 0x80001000, len = 0xFFFFFFFFFFFFF000\<rparr> = Inr TEE_SUCCESS"
  by (simp add: risaf_check_region_boundaries_def example_risaf_def Let_def)

theorem boundaries_wrapping_region_accepted_witness:
  "risaf_check_region_boundaries example_risaf
     \<lparr>cfg = 0x31, addr = 0x80001000, len = 0xFFFFFFFFFFFFF000\<rparr> = Inr TEE_SUCCESS"
  using boundaries_wrapping_region_accepted by blast


subsection \<open>Recording a device-tree cell\<close>




subsection \<open>Locked resources\<close>

text \<open>
  What each reconfiguration path does with a lock bit. \<open>stm32_etzpc_configure\<close>, the TZMA
  branch of \<open>stm32_etzpc_configure_memory\<close> and \<open>stm32_rifsc_reconfigure_risup\<close> read the lock
  bit and leave the registers untouched when it is set; \<open>stm32_rifsc_set_config\<close> goes
  straight to \<open>stm32_risup_cfg\<close>.
\<close>

lemma set_config_risup_path:
  assumes "arg_count fw = 1" and "args fw = a0 # rest"
      and "a0 AND RIF_PER_ID_MASK B < RIMU_ID_OFFSET B" and "is_tdcid pdata"
  shows "stm32_rifsc_set_config B D pdata fw s =
           stm32_risup_cfg D pdata
             \<lparr>cid_attr = RIF_FLD_GET (RIF_PERx_CID_MASK B) (RIF_PERx_CID_SHIFT B) a0,
              risup_id = a0 AND RIF_PER_ID_MASK B,
              sec = (BIT (RIF_SEC_SHIFT B) AND a0 \<noteq> 0),
              priv = (BIT (RIF_PRIV_SHIFT B) AND a0 \<noteq> 0),
              lock = (BIT (RIF_LOCK_SHIFT B) AND a0 \<noteq> 0),
              pm_sem = False\<rparr> s"
  using assms by (simp add: stm32_rifsc_set_config_def Let_def)

lemma reconfigure_risup_locked:
  assumes "unat rid \<le> unat (nb_risup (drv_data pdata))" and "cid \<le> MAX_CID_SUPPORTED"
      and "io_read32 D (base pdata + RIFSC_RISC_RCFGLOCKR0 + 4 * (unat rid div PERIPH_IDS_PER_REG)) s
             AND BIT (unat rid mod PERIPH_IDS_PER_REG) \<noteq> 0"
  shows "stm32_rifsc_reconfigure_risup D pdata rid cid sec_v priv_v cfen s =
           Inr (TEE_ERROR_ACCESS_DENIED, pdata, s)"
  using assms by (simp add: stm32_rifsc_reconfigure_risup_def Let_def not_less)

lemma etzpc_configure_locked:
  assumes "arg_count fw = 1" and "args fw = a0 # rest"
      and valid: "a0 AND ETZPC_ID_MASK B < num_per_sec (ddata dev)"
      and req: "etzpc_binding2decprot B (drop_bit (ETZPC_MODE_SHIFT B) (a0 AND ETZPC_MODE_MASK B)) = Inr a"
      and locked: "io_read32 D (etzpc_base dev + decprot_lock_offset (a0 AND ETZPC_ID_MASK B)
                     + ETZPC_DECPROT_LOCK0) s AND decprot_lock_mask (a0 AND ETZPC_ID_MASK B) \<noteq> 0"
  shows "stm32_etzpc_configure B D dev fw s =
           Inr (if current_decprot D dev (a0 AND ETZPC_ID_MASK B) s \<noteq> a
                then TEE_ERROR_ACCESS_DENIED else TEE_SUCCESS, s)"
  using assms
  by (simp add: stm32_etzpc_configure_def etzpc_apply_decprot_def Let_def decprot_is_locked_def
      valid_decprot_id_def get_decprot_valid)

lemma etzpc_configure_memory_tzma_locked:
  assumes "arg_count fw = 1" and "args fw = a0 # rest"
      and nosram: "\<not> (a0 AND ETZPC_ID_MASK B < num_per_sec (ddata dev))"
      and tz: "a0 AND ETZPC_ID_MASK B = ETZPC_TZMA0_ID B"
      and pa: "paddr0 = ROM_BASE B" and szb: "sz \<le> ROM_SIZE B"
      and al: "IS_ALIGNED sz (SMALL_PAGE_SIZE B)"
      and v: "0 < num_tzma (ddata dev)"
      and locked: "io_read32 D (etzpc_base dev + ETZPC_TZMA0_SIZE) s AND ETZPC_TZMA0_SIZE_LOCK \<noteq> 0"
  shows "stm32_etzpc_configure_memory B D dev fw paddr0 sz s =
           Inr (if ucast (ucast (io_read32 D (etzpc_base dev + ETZPC_TZMA0_SIZE) s) :: u16)
                     \<noteq> ROUNDUP_DIV sz (SMALL_PAGE_SIZE B)
                then TEE_ERROR_ACCESS_DENIED else TEE_SUCCESS, s)"
proof -
  have nb: "\<not> ROM_SIZE B < sz" using szb by (simp add: not_less)
  show ?thesis
    using assms(1-5,7-9) nb
    by (simp add: stm32_etzpc_configure_memory_def Let_def tzma_is_locked_def valid_tzma_id_def
        etzpc_do_get_tzma_def)
qed

text \<open>
  Claim C4 at a locked RISUP. Bit 3 of RCFGLOCKR0 is set and RISUP 3 is not secure. The TDCID
  calls \<open>stm32_rifsc_set_config\<close> with the cell \<open>0x103\<close>, which asks for RISUP 3 to be secure.
  The claim expects \<open>TEE_ERROR_ACCESS_DENIED\<close> and no change. The call issues the writes to
  SECCFGR0, PRIVCFGR0 and CIDCFGR of RISUP 3 and returns \<open>TEE_SUCCESS\<close>: with registers that
  store what is written the resource is now secure, and with registers that keep locked bits
  the call still reports success although the resource stays non-secure. For the same state
  \<open>stm32_rifsc_reconfigure_risup\<close> returns \<open>TEE_ERROR_ACCESS_DENIED\<close>.
\<close>

theorem rifsc_set_config_ignores_lock:
  "io_read32 ram_device (risup_rcfglockr_addr tdcid_pdata example_risup) locked_risup_3 AND BIT 3 \<noteq> 0 \<and>
   \<not> risup_secured ram_device tdcid_pdata example_risup locked_risup_3 \<and>
   (case stm32_rifsc_set_config example_rif_bindings ram_device tdcid_pdata
           \<lparr>arg_count = 1, args = [0x103]\<rparr> locked_risup_3 of
      Inl f \<Rightarrow> False
    | Inr (res, s') \<Rightarrow>
        res = TEE_SUCCESS \<and> new_writes locked_risup_3 s' = [(16, 8), (48, 0), (280, 0)] \<and>
        risup_secured ram_device tdcid_pdata example_risup s') \<and>
   (case stm32_rifsc_set_config example_rif_bindings locking_device tdcid_pdata
           \<lparr>arg_count = 1, args = [0x103]\<rparr> locked_risup_3 of
      Inl f \<Rightarrow> False
    | Inr (res, s') \<Rightarrow>
        res = TEE_SUCCESS \<and> \<not> risup_secured locking_device tdcid_pdata example_risup s') \<and>
   result_of (stm32_rifsc_reconfigure_risup ram_device tdcid_pdata 3 0 True False False locked_risup_3)
     = Inr TEE_ERROR_ACCESS_DENIED"
  by code_simp

theorem rifsc_set_config_ignores_lock_witness:
  "result_of (stm32_rifsc_reconfigure_risup ram_device tdcid_pdata 3 0 True False False locked_risup_3)
     = Inr TEE_ERROR_ACCESS_DENIED"
  using rifsc_set_config_ignores_lock by blast


end
